theory Spec2Isabelle
  imports Complex_Main "HOL-Library.Word"
begin

section \<open>JavaScript helpers used by the controllers\<close>

text \<open>
  Strings are byte lists; the helpers below follow the ECMAScript functions the source
  calls, restricted to the ASCII range: \<open>trim\<close> removes ASCII white space only and
  \<open>toLowerCase\<close> maps the letters A to Z only, so strings with other white space or
  letters are outside the model. JavaScript numbers that come out of
  \<^verbatim>\<open>parseInt\<close> are modelled as \<open>int option\<close>, \<open>None\<close> being \<^verbatim>\<open>NaN\<close>; the model is
  exact below \<open>2^53\<close>, where a double holds every integer.
\<close>

type_synonym byte = "8 word"

type_synonym jsnum = "int option"

definition js_whitespace :: "char \<Rightarrow> bool" where
  "js_whitespace c = (c \<in> set [CHR '' '', CHR 0x09, CHR 0x0A, CHR 0x0B, CHR 0x0C, CHR 0x0D])"

definition trim :: "string \<Rightarrow> string" where
  "trim s = rev (dropWhile js_whitespace (rev (dropWhile js_whitespace s)))"

text \<open>Truthiness of a value that is \<^verbatim>\<open>undefined\<close>/\<^verbatim>\<open>null\<close> (\<open>None\<close>) or a string.\<close>

fun truthy :: "string option \<Rightarrow> bool" where
  "truthy None = False"
| "truthy (Some s) = (s \<noteq> [])"

definition toLowerChar :: "char \<Rightarrow> char" where
  "toLowerChar c =
     (case map_of (zip ''ABCDEFGHIJKLMNOPQRSTUVWXYZ'' ''abcdefghijklmnopqrstuvwxyz'') c of
        Some d \<Rightarrow> d
      | None \<Rightarrow> c)"

definition toLowerCase :: "string \<Rightarrow> string" where
  "toLowerCase s = map toLowerChar s"

fun starts_with :: "string \<Rightarrow> string \<Rightarrow> bool" where
  "starts_with [] s = True"
| "starts_with (p # ps) [] = False"
| "starts_with (p # ps) (c # cs) = (p = c \<and> starts_with ps cs)"

text \<open>\<^verbatim>\<open>content.includes(keyword)\<close>\<close>

fun js_includes :: "string \<Rightarrow> string \<Rightarrow> bool" where
  "js_includes [] kw = (kw = [])"
| "js_includes (c # cs) kw = (starts_with kw (c # cs) \<or> js_includes cs kw)"

text \<open>\<^verbatim>\<open>s.split(d)\<close> for a one-character separator: never the empty array.\<close>

fun split_on :: "char \<Rightarrow> string \<Rightarrow> string list" where
  "split_on d [] = [[]]"
| "split_on d (c # cs) =
     (if c = d then [] # split_on d cs
      else (case split_on d cs of
              [] \<Rightarrow> [[c]]
            | p # ps \<Rightarrow> (c # p) # ps))"

text \<open>\<^verbatim>\<open>s.replace(/pat/, '')\<close> for a literal pattern: the first occurrence is removed.\<close>

fun remove_first :: "string \<Rightarrow> string \<Rightarrow> string" where
  "remove_first pat [] = []"
| "remove_first pat (c # cs) =
     (if starts_with pat (c # cs) then drop (length pat) (c # cs)
      else c # remove_first pat cs)"

text \<open>\<^verbatim>\<open>parts[i]\<close>: \<^verbatim>\<open>undefined\<close> past the end of the array.\<close>

fun at_index :: "'a list \<Rightarrow> nat \<Rightarrow> 'a option" where
  "at_index [] i = None"
| "at_index (x # xs) 0 = Some x"
| "at_index (x # xs) (Suc i) = at_index xs i"

definition is_digit :: "char \<Rightarrow> bool" where
  "is_digit c = (c \<in> set ''0123456789'')"

definition digit_val :: "char \<Rightarrow> nat" where
  "digit_val c =
     (case map_of (zip ''0123456789'' [0, 1, 2, 3, 4, 5, 6, 7, 8, 9]) c of
        Some d \<Rightarrow> d
      | None \<Rightarrow> 0)"

fun digits_value :: "nat \<Rightarrow> string \<Rightarrow> nat" where
  "digits_value acc [] = acc"
| "digits_value acc (c # cs) = digits_value (acc * 10 + digit_val c) cs"

text \<open>
  \<^verbatim>\<open>parseInt(s, 10)\<close>: leading white space is skipped, one sign is read, then the longest
  run of decimal digits; no digit gives \<^verbatim>\<open>NaN\<close>.
\<close>

definition parseInt :: "string \<Rightarrow> jsnum" where
  "parseInt s =
     (let t = dropWhile js_whitespace s;
          neg = (case t of [] \<Rightarrow> False | c # r \<Rightarrow> c = CHR ''-'');
          u = (case t of
                 [] \<Rightarrow> t
               | c # r \<Rightarrow> if c = CHR ''-'' \<or> c = CHR ''+'' then r else t);
          ds = takeWhile is_digit u
      in if ds = [] then None
         else Some ((if neg then - 1 else 1) * int (digits_value 0 ds)))"

definition digit_char :: "nat \<Rightarrow> char" where
  "digit_char d = ''0123456789'' ! d"

fun show_nat :: "nat \<Rightarrow> string" where
  "show_nat n =
     (if n < 10 then [digit_char n]
      else show_nat (n div 10) @ [digit_char (n mod 10)])"

declare show_nat.simps [simp del]

definition show_int :: "int \<Rightarrow> string" where
  "show_int i = (if i < 0 then CHR ''-'' # show_nat (nat (- i)) else show_nat (nat i))"

text \<open>A number inside a template literal or a header value.\<close>

definition js_number_string :: "jsnum \<Rightarrow> string" where
  "js_number_string x = (case x of None \<Rightarrow> ''NaN'' | Some i \<Rightarrow> show_int i)"

definition js_sub :: "jsnum \<Rightarrow> jsnum \<Rightarrow> jsnum" where
  "js_sub a b = (case (a, b) of (Some x, Some y) \<Rightarrow> Some (x - y) | _ \<Rightarrow> None)"

definition js_add :: "jsnum \<Rightarrow> jsnum \<Rightarrow> jsnum" where
  "js_add a b = (case (a, b) of (Some x, Some y) \<Rightarrow> Some (x + y) | _ \<Rightarrow> None)"

text \<open>
  \<^verbatim>\<open>Math.round\<close> of a value that is a number (\<open>Some x\<close>) or a string that is no
  number (\<open>None\<close>): the nearest integer, a half rounding up, and \<^verbatim>\<open>NaN\<close> for the string.
\<close>

definition js_round :: "rat option \<Rightarrow> jsnum" where
  "js_round v = (case v of None \<Rightarrow> None | Some x \<Rightarrow> Some \<lfloor>x + 1 / 2\<rfloor>)"

text \<open>\<^verbatim>\<open>n.toString().padStart(2, '0')\<close>\<close>

definition pad2 :: "nat \<Rightarrow> string" where
  "pad2 n = (let s = show_nat n in if length s < 2 then CHR ''0'' # s else s)"


section \<open>Data model (models/Video.js)\<close>

datatype VideoStatus = UPLOADING | PROCESSING | COMPLETED | FAILED

datatype SensitivityStatus = PENDING | SAFE | FLAGGED

text \<open>
  A document of the \<^verbatim>\<open>Video\<close> collection. Object ids are natural numbers; a user id
  inside a token is the same number (the string form of an ObjectId identifies it).
  \<^verbatim>\<open>resolution\<close>, \<^verbatim>\<open>bitrate\<close> and \<^verbatim>\<open>codec\<close> are the schema's paths for the technical
  metadata.
\<close>

record Video =
  vid :: nat
  title :: string
  description :: string
  filename :: string
  originalFilename :: string
  filepath :: string
  filesize :: nat
  duration :: "int option"
  mimeType :: string
  resolution_width :: "nat option"
  resolution_height :: "nat option"
  bitrate :: "nat option"
  codec :: "string option"
  uploadedBy :: nat
  organization :: "string option"
  status :: VideoStatus
  sensitivityStatus :: SensitivityStatus
  processingProgress :: nat
  processingError :: "string option"
  thumbnailPath :: "string option"
  tags :: "string list"
  viewCount :: nat
  isPublic :: bool
  isDeleted :: bool

text \<open>utils/apiResponse.js: \<^verbatim>\<open>HttpStatus\<close>\<close>

definition HttpStatus_OK :: nat where "HttpStatus_OK = 200"
definition HttpStatus_CREATED :: nat where "HttpStatus_CREATED = 201"
definition HttpStatus_BAD_REQUEST :: nat where "HttpStatus_BAD_REQUEST = 400"
definition HttpStatus_UNAUTHORIZED :: nat where "HttpStatus_UNAUTHORIZED = 401"
definition HttpStatus_FORBIDDEN :: nat where "HttpStatus_FORBIDDEN = 403"
definition HttpStatus_NOT_FOUND :: nat where "HttpStatus_NOT_FOUND = 404"
definition HttpStatus_INTERNAL_SERVER_ERROR :: nat where "HttpStatus_INTERNAL_SERVER_ERROR = 500"

text \<open>
  The acknowledgment of an upload (the \<^verbatim>\<open>video\<close> object of the response; the formatted
  size and the creation time are left out).
\<close>

record UploadAck =
  ack_id :: nat
  ack_title :: string
  ack_description :: string
  ack_filename :: string
  ack_originalFilename :: string
  ack_filesize :: nat
  ack_mimeType :: string
  ack_status :: VideoStatus
  ack_sensitivityStatus :: SensitivityStatus
  ack_processingProgress :: nat

text \<open>
  What a handler sends: a JSON object \<^verbatim>\<open>{success, message}\<close>, possibly with data, or the
  bytes piped from a read stream. \<open>NoBody\<close> is a response whose head was written and
  whose read stream could not be created, so that nothing is piped.
\<close>

datatype Body =
    JsonMessage bool string
  | JsonUpload bool string UploadAck
  | JsonVideo bool string Video
  | FileBytes "byte list"
  | NoBody

record Response =
  resp_status :: nat
  resp_headers :: "(string \<times> string) list"
  resp_body :: Body

text \<open>\<^verbatim>\<open>res.status(code).json({success, message})\<close>\<close>

definition json_response :: "nat \<Rightarrow> bool \<Rightarrow> string \<Rightarrow> Response" where
  "json_response code ok msg =
     \<lparr>resp_status = code, resp_headers = [], resp_body = JsonMessage ok msg\<rparr>"

definition errorResponse :: "string \<Rightarrow> nat \<Rightarrow> Response" where
  "errorResponse message statusCode = json_response statusCode False message"

text \<open>An error handed to \<^verbatim>\<open>next(error)\<close>.\<close>

datatype Failure =
    ValidationError "string list"
  | DuplicateKey string
  | CastError
  | TypeError

datatype Outcome = Responded Response | NextError Failure


section \<open>Collaborators and store\<close>

text \<open>The payload of a token as \<^verbatim>\<open>jwt.verify\<close> returns it, and \<^verbatim>\<open>req.user\<close> after \<^verbatim>\<open>protect\<close>.\<close>

record Decoded =
  d_userId :: nat
  d_role :: string
  d_organization :: "string option"

text \<open>
  What the prober resolves with (\<^verbatim>\<open>getVideoMetadata\<close>): the probed values. The duration
  is passed on as the external tool reports it, \<^verbatim>\<open>metadata.format.duration || 0\<close>: a
  number (\<open>Some x\<close>), or a string that is no number such as \<^verbatim>\<open>N/A\<close> (\<open>None\<close>).
\<close>

record VideoStream =
  vs_codec :: string
  vs_width :: nat
  vs_height :: nat
  vs_fps :: rat

record VideoMetadata =
  md_duration :: "rat option"
  md_bitrate :: nat
  md_video :: "VideoStream option"
  md_audio :: bool

text \<open>A \<^verbatim>\<open>videoStatusUpdate\<close> event emitted to the room of a user.\<close>

record StatusEvent =
  ev_room :: nat
  ev_videoId :: nat
  ev_status :: string
  ev_progress :: nat
  ev_message :: string
  ev_thumbnailPath :: "string option"
  ev_duration :: "int option"
  ev_durationFormatted :: "string option"
  ev_sensitivityStatus :: "SensitivityStatus option"
  ev_error :: "string option"

text \<open>The calls made to the external prober and to the classifier, in order.\<close>

datatype Call =
    CallCheckFFmpeg
  | CallAnalyzeSensitivity
  | CallFFprobe string
  | CallScreenshots string

text \<open>
  The environment of a run. \<open>jwt_verify\<close> is \<^verbatim>\<open>jwt.verify(token, secret)\<close>, \<open>None\<close> when
  it throws. \<open>ffmpeg_available\<close> is what \<^verbatim>\<open>checkFFmpegAvailable\<close> resolves with.
  \<open>ffprobe\<close> and \<open>screenshots\<close> are the external tool: \<open>Inl m\<close> is an error with message
  \<open>m\<close>, \<open>Inr\<close> the probed metadata and the name of the thumbnail file written.
  \<open>rand_first\<close> and \<open>rand_second\<close> are the values of \<^verbatim>\<open>Math.random()\<close> at the first and
  at the second call of the classifier in one run. \<open>global_io\<close> tells whether
  \<^verbatim>\<open>global.io\<close> is set (server.js sets it when the server starts). \<open>user_organization\<close>
  reads the \<^verbatim>\<open>User\<close> collection: \<open>None\<close> when no such user exists. \<open>cast_error_message\<close>
  is the message of the \<^verbatim>\<open>CastError\<close> the database layer throws when an update sets the
  numeric path \<^verbatim>\<open>duration\<close> to \<^verbatim>\<open>NaN\<close>.
\<close>

record Env =
  jwt_verify :: "string \<Rightarrow> Decoded option"
  ffmpeg_available :: bool
  ffprobe :: "string \<Rightarrow> string + VideoMetadata"
  screenshots :: "string \<Rightarrow> string + string"
  rand_first :: rat
  rand_second :: rat
  global_io :: bool
  user_organization :: "nat \<Rightarrow> string option option"
  cast_error_message :: string

text \<open>
  The mutable world: the \<^verbatim>\<open>Video\<close> collection, the files on disk, the events emitted so
  far and the collaborator calls made so far.
\<close>

record World =
  videos :: "Video list"
  files :: "string \<Rightarrow> byte list option"
  emitted :: "StatusEvent list"
  calls :: "Call list"

text \<open>\<^verbatim>\<open>Video.findById(id)\<close>: no filter on the soft-delete flag.\<close>

definition findById :: "Video list \<Rightarrow> nat \<Rightarrow> Video option" where
  "findById vs i = find (\<lambda>v. vid v = i) vs"

text \<open>\<^verbatim>\<open>Video.findOne({_id: id, isDeleted: false})\<close>\<close>

definition findOne_notDeleted :: "Video list \<Rightarrow> nat \<Rightarrow> Video option" where
  "findOne_notDeleted vs i = find (\<lambda>v. vid v = i \<and> isDeleted v = False) vs"

text \<open>Writing a changed document back: the first document with that id is replaced.\<close>

fun update_first :: "nat \<Rightarrow> (Video \<Rightarrow> Video) \<Rightarrow> Video list \<Rightarrow> Video list" where
  "update_first i f [] = []"
| "update_first i f (v # vs) = (if vid v = i then f v # vs else v # update_first i f vs)"

text \<open>\<^verbatim>\<open>Video.findByIdAndUpdate(id, update)\<close>: nothing happens when no document has the id.\<close>

definition findByIdAndUpdate :: "nat \<Rightarrow> (Video \<Rightarrow> Video) \<Rightarrow> World \<Rightarrow> World" where
  "findByIdAndUpdate i f w = w\<lparr>videos := update_first i f (videos w)\<rparr>"


section \<open>Streaming gate and range server (videoController.js, streamVideo)\<close>

record StreamRequest =
  sr_id :: "nat option"
  sr_token :: "string option"
  sr_range :: "string option"

text \<open>
  \<^verbatim>\<open>fs.createReadStream(path, {start, end})\<close> piped into the response: the bytes at
  offsets \<open>start\<close> to \<open>end\<close> inclusive, cut at the end of the file. Node refuses a
  \<open>start\<close> or \<open>end\<close> that is not a non-negative integer and a \<open>start\<close> beyond \<open>end\<close>; the
  exception reaches the handler's outer \<^verbatim>\<open>catch\<close>, which sends nothing because the
  head is already written.
\<close>

definition createReadStream :: "byte list \<Rightarrow> jsnum \<Rightarrow> jsnum \<Rightarrow> Body" where
  "createReadStream content start endv =
     (case (start, endv) of
        (Some s, Some e) \<Rightarrow>
          if 0 \<le> s \<and> 0 \<le> e \<and> s \<le> e
          then FileBytes (take (nat (e - s + 1)) (drop (nat s) content))
          else NoBody
      | _ \<Rightarrow> NoBody)"

text \<open>STEP 2 of the handler: the user authorization check. \<open>True\<close> lets the request pass.\<close>

definition authorizationCheck :: "Decoded \<Rightarrow> Video \<Rightarrow> bool" where
  "authorizationCheck decoded video =
     (if d_role decoded = ''admin'' then True
      else if uploadedBy video \<noteq> d_userId decoded
      then \<not> (\<not> isPublic video \<and>
                (\<not> truthy (d_organization decoded) \<or>
                 organization video \<noteq> d_organization decoded))
      else True)"

text \<open>The file part of the handler: existence of the file, then the range.\<close>

definition serveFile :: "World \<Rightarrow> Video \<Rightarrow> string option \<Rightarrow> Response" where
  "serveFile w video rangeHdr =
     (let videoPath = filepath video in
      if videoPath = [] then json_response HttpStatus_NOT_FOUND False ''Video file not found''
      else
        (case files w videoPath of
           None \<Rightarrow> json_response HttpStatus_NOT_FOUND False ''Video file not found''
         | Some content \<Rightarrow>
             (let fileSize = int (length content) in
              if \<not> truthy rangeHdr
              then \<lparr>resp_status = 200,
                    resp_headers =
                      [(''Content-Length'', show_int fileSize),
                       (''Content-Type'', ''video/mp4'')],
                    resp_body = FileBytes content\<rparr>
              else
                (let parts = split_on CHR ''-'' (remove_first ''bytes='' (the rangeHdr));
                     start = parseInt (hd parts);
                     endv = (if truthy (at_index parts 1)
                             then parseInt (the (at_index parts 1))
                             else Some (fileSize - 1));
                     chunksize = js_add (js_sub endv start) (Some 1)
                 in \<lparr>resp_status = 206,
                     resp_headers =
                       [(''Content-Range'',
                           ''bytes '' @ js_number_string start @ ''-'' @ js_number_string endv
                             @ ''/'' @ show_int fileSize),
                        (''Accept-Ranges'', ''bytes''),
                        (''Content-Length'', js_number_string chunksize),
                        (''Content-Type'', ''video/mp4'')],
                     resp_body = createReadStream content start endv\<rparr>))))"

text \<open>
  The handler. A request id that is no ObjectId (\<open>None\<close>) makes \<^verbatim>\<open>findById\<close> throw,
  which the outer \<^verbatim>\<open>catch\<close> answers with 500.
\<close>

definition streamVideo :: "Env \<Rightarrow> World \<Rightarrow> StreamRequest \<Rightarrow> Response" where
  "streamVideo env w req =
     (if \<not> truthy (sr_token req)
      then json_response HttpStatus_UNAUTHORIZED False ''Authentication token required''
      else
        (case jwt_verify env (the (sr_token req)) of
           None \<Rightarrow> json_response HttpStatus_UNAUTHORIZED False ''Invalid or expired token''
         | Some decoded \<Rightarrow>
             (case sr_id req of
                None \<Rightarrow> json_response 500 False ''Streaming error''
              | Some i \<Rightarrow>
                  (case findById (videos w) i of
                     None \<Rightarrow> json_response HttpStatus_NOT_FOUND False ''Video not found''
                   | Some video \<Rightarrow>
                       if \<not> authorizationCheck decoded video
                       then json_response HttpStatus_FORBIDDEN False
                              ''You do not have permission to access this video''
                       else if status video \<noteq> COMPLETED
                       then json_response HttpStatus_BAD_REQUEST False
                              ''Video is still being processed''
                       else if sensitivityStatus video = FLAGGED \<and> d_role decoded \<noteq> ''admin''
                       then json_response HttpStatus_FORBIDDEN False
                              ''Content flagged as sensitive. Admin access required.''
                       else serveFile w video (sr_range req)))))"


section \<open>Metadata read path (videoController.js, getVideoById)\<close>

text \<open>
  The \<^verbatim>\<open>pre('save')\<close> hook of the schema: a document without organization takes the
  organization of its uploader, when that user exists and has one.
\<close>

definition preSave :: "Env \<Rightarrow> Video \<Rightarrow> Video" where
  "preSave env v =
     (if \<not> truthy (organization v)
      then (case user_organization env (uploadedBy v) of
              None \<Rightarrow> v
            | Some org \<Rightarrow> if truthy org then v\<lparr>organization := org\<rparr> else v)
      else v)"

text \<open>\<^verbatim>\<open>video.incrementViews()\<close>\<close>

definition incrementViews :: "Env \<Rightarrow> Video \<Rightarrow> Video" where
  "incrementViews env v = preSave env (v\<lparr>viewCount := viewCount v + 1\<rparr>)"

text \<open>
  \<open>user\<close> is \<^verbatim>\<open>req.user\<close>. \<^verbatim>\<open>populate('uploadedBy')\<close> leaves \<^verbatim>\<open>null\<close> when the uploader
  no longer exists, and reading \<^verbatim>\<open>video.uploadedBy._id\<close> then throws.
\<close>

definition getVideoById :: "Env \<Rightarrow> World \<Rightarrow> Decoded \<Rightarrow> nat option \<Rightarrow> Outcome \<times> World" where
  "getVideoById env w user idp =
     (case idp of
        None \<Rightarrow> (NextError CastError, w)
      | Some i \<Rightarrow>
          (case findOne_notDeleted (videos w) i of
             None \<Rightarrow> (Responded (errorResponse ''Video not found'' HttpStatus_NOT_FOUND), w)
           | Some video \<Rightarrow>
               (case user_organization env (uploadedBy video) of
                  None \<Rightarrow> (NextError TypeError, w)
                | Some uploaderOrg \<Rightarrow>
                    (let isOwner = (uploadedBy video = d_userId user);
                         sameOrg = (truthy (organization video) \<and>
                                    organization video = d_organization user);
                         isAdmin = (d_role user = ''admin'')
                     in if \<not> isOwner \<and> \<not> isAdmin \<and> \<not> (sameOrg \<and> isPublic video)
                        then (Responded (errorResponse
                                ''You do not have permission to view this video''
                                HttpStatus_FORBIDDEN), w)
                        else
                          (let video' = (if \<not> isOwner then incrementViews env video else video);
                               w' = (if \<not> isOwner
                                     then w\<lparr>videos := update_first i (\<lambda>old. video') (videos w)\<rparr>
                                     else w)
                           in (Responded
                                 \<lparr>resp_status = HttpStatus_OK, resp_headers = [],
                                  resp_body = JsonVideo True ''Video retrieved successfully'' video'\<rparr>,
                               w'))))))"


section \<open>Sensitivity classifier and prober wrapper (utils/videoProcessor.js)\<close>

definition UNSAFE_KEYWORDS :: "string list" where
  "UNSAFE_KEYWORDS =
     [''nsfw'', ''explicit'', ''violence'', ''attack'', ''kill'', ''abuse'', ''test-flag'']"

text \<open>\<open>random\<close> is the value \<^verbatim>\<open>Math.random()\<close> returns if the function comes to draw it.\<close>

definition analyzeSensitivity :: "rat \<Rightarrow> string \<Rightarrow> string \<Rightarrow> SensitivityStatus" where
  "analyzeSensitivity random ttl descr =
     (if ttl = [] \<and> descr = [] then SAFE
      else
        (let content = toLowerCase (ttl @ '' '' @ descr);
             hasUnsafeContent = list_ex (\<lambda>keyword. js_includes content keyword) UNSAFE_KEYWORDS
         in if hasUnsafeContent then FLAGGED
            else if random < 1 / 10 then FLAGGED
            else SAFE))"

definition log_call :: "Call \<Rightarrow> World \<Rightarrow> World" where
  "log_call c w = w\<lparr>calls := calls w @ [c]\<rparr>"

definition getVideoMetadata :: "Env \<Rightarrow> string \<Rightarrow> World \<Rightarrow> (string + VideoMetadata) \<times> World" where
  "getVideoMetadata env filePath w =
     (case ffprobe env filePath of
        Inl m \<Rightarrow> (Inl (''Failed to read video metadata: '' @ m), log_call (CallFFprobe filePath) w)
      | Inr metadata \<Rightarrow> (Inr metadata, log_call (CallFFprobe filePath) w))"

definition generateThumbnail :: "Env \<Rightarrow> string \<Rightarrow> World \<Rightarrow> (string + string) \<times> World" where
  "generateThumbnail env filePath w =
     (case screenshots env filePath of
        Inl m \<Rightarrow> (Inl (''Failed to generate thumbnail: '' @ m), log_call (CallScreenshots filePath) w)
      | Inr thumbnailFilename \<Rightarrow>
          (Inr (''uploads/thumbnails/'' @ thumbnailFilename), log_call (CallScreenshots filePath) w))"

record ProcessResult =
  pr_duration :: jsnum
  pr_thumbnailPath :: "string option"
  pr_sensitivityStatus :: SensitivityStatus
  pr_width :: "nat option"
  pr_height :: "nat option"
  pr_fps :: "rat option"
  pr_codec :: "string option"
  pr_bitrate :: nat
  pr_hasAudio :: bool

text \<open>
  \<^verbatim>\<open>processVideo\<close>: \<open>Inl m\<close> is the thrown \<^verbatim>\<open>Error\<close> with message \<open>m\<close>. Only the prober
  can make it throw; an error of the thumbnailer is caught and leaves the path \<^verbatim>\<open>null\<close>.
\<close>

definition processVideo ::
  "Env \<Rightarrow> string \<Rightarrow> string \<Rightarrow> string \<Rightarrow> World \<Rightarrow> (string + ProcessResult) \<times> World" where
  "processVideo env filePath ttl descr w =
     (case getVideoMetadata env filePath w of
        (Inl m, w1) \<Rightarrow> (Inl (''Video processing failed: '' @ m), w1)
      | (Inr metadata, w1) \<Rightarrow>
          (case generateThumbnail env filePath w1 of
             (thumb, w2) \<Rightarrow>
               (let thumbnailPath = (case thumb of Inl thumbError \<Rightarrow> None | Inr p \<Rightarrow> Some p);
                    sensitivity = analyzeSensitivity (rand_second env) ttl descr
                in (Inr \<lparr>pr_duration = js_round (md_duration metadata),
                          pr_thumbnailPath = thumbnailPath,
                          pr_sensitivityStatus = sensitivity,
                          pr_width = map_option vs_width (md_video metadata),
                          pr_height = map_option vs_height (md_video metadata),
                          pr_fps = map_option vs_fps (md_video metadata),
                          pr_codec = map_option vs_codec (md_video metadata),
                          pr_bitrate = md_bitrate metadata,
                          pr_hasAudio = md_audio metadata\<rparr>,
                    log_call CallAnalyzeSensitivity w2))))"


section \<open>Processing orchestrator (videoController.js, processVideoInBackground)\<close>

definition status_event :: "nat \<Rightarrow> nat \<Rightarrow> string \<Rightarrow> nat \<Rightarrow> string \<Rightarrow> StatusEvent" where
  "status_event room videoId st progress message =
     \<lparr>ev_room = room, ev_videoId = videoId, ev_status = st, ev_progress = progress,
      ev_message = message, ev_thumbnailPath = None, ev_duration = None,
      ev_durationFormatted = None, ev_sensitivityStatus = None, ev_error = None\<rparr>"

text \<open>
  \<^verbatim>\<open>if (global.io && userId) global.io.to(userId).emit('videoStatusUpdate', e)\<close>: the
  user id is the string form of a required ObjectId, hence never empty.
\<close>

definition emit :: "Env \<Rightarrow> StatusEvent \<Rightarrow> World \<Rightarrow> World" where
  "emit env e w = (if global_io env then w\<lparr>emitted := emitted w @ [e]\<rparr> else w)"

definition formatDuration :: "int \<Rightarrow> string" where
  "formatDuration seconds =
     (if seconds \<le> 0 then ''0:00''
      else
        (let n = nat seconds;
             h = n div 3600;
             m = (n mod 3600) div 60;
             s = n mod 60
         in if h > 0 then show_nat h @ '':'' @ pad2 m @ '':'' @ pad2 s
            else show_nat m @ '':'' @ pad2 s))"

text \<open>
  The \<^verbatim>\<open>catch\<close> block of the orchestrator, entered with an error whose message is
  \<open>message\<close>: the record is marked failed and the failure event is emitted.
\<close>

definition processingFailed :: "Env \<Rightarrow> nat \<Rightarrow> nat \<Rightarrow> string \<Rightarrow> World \<Rightarrow> World" where
  "processingFailed env userId videoId message w =
     emit env
       ((status_event userId videoId ''failed'' 0 (''Processing failed: '' @ message))
          \<lparr>ev_error := Some message\<rparr>)
       (findByIdAndUpdate videoId
          (\<lambda>v. v\<lparr>status := FAILED, processingProgress := 0,
                 processingError := Some message\<rparr>) w)"

text \<open>
  The orchestrator. Two steps of its \<^verbatim>\<open>try\<close> block can throw: \<^verbatim>\<open>processVideo\<close> (the
  \<open>Inl\<close> branch), and the final update, which sets the numeric path \<^verbatim>\<open>duration\<close> and is
  refused with a \<^verbatim>\<open>CastError\<close> when the rounded duration is \<^verbatim>\<open>NaN\<close>; both lead to the
  \<^verbatim>\<open>catch\<close> block. The other updates set constants and the verdict, which always cast.
  The final update also names \<^verbatim>\<open>metadata.width\<close>, \<^verbatim>\<open>metadata.height\<close>,
  \<^verbatim>\<open>metadata.fps\<close>, \<^verbatim>\<open>metadata.codec\<close> and \<^verbatim>\<open>metadata.bitrate\<close>; the schema has no
  \<^verbatim>\<open>metadata\<close> path, so these keys change no field of the document.
\<close>

definition processVideoInBackground :: "Env \<Rightarrow> nat \<Rightarrow> string \<Rightarrow> World \<Rightarrow> World" where
  "processVideoInBackground env videoId filePath w =
     (case findById (videos w) videoId of
        None \<Rightarrow> w
      | Some video \<Rightarrow>
          (let userId = uploadedBy video;
               w1 = emit env (status_event userId videoId ''processing'' 10 ''Processing started'') w;
               w2 = log_call CallCheckFFmpeg w1
           in if \<not> ffmpeg_available env
              then
                emit env
                  (status_event userId videoId ''completed'' 100
                     ''Video uploaded (FFmpeg not available for processing)'')
                  (findByIdAndUpdate videoId
                     (\<lambda>v. v\<lparr>status := COMPLETED, processingProgress := 100\<rparr>) w2)
              else
                (let w3 = emit env
                            (status_event userId videoId ''processing'' 30 ''Extracting metadata...'')
                            (findByIdAndUpdate videoId (\<lambda>v. v\<lparr>processingProgress := 30\<rparr>) w2);
                     sensitivity = analyzeSensitivity (rand_first env) (title video) (description video);
                     w4 = findByIdAndUpdate videoId (\<lambda>v. v\<lparr>sensitivityStatus := sensitivity\<rparr>)
                            (log_call CallAnalyzeSensitivity w3)
                 in case processVideo env filePath (title video) (description video) w4 of
                      (Inl message, w5) \<Rightarrow> processingFailed env userId videoId message w5
                    | (Inr result, w5) \<Rightarrow>
                        (let w6 = emit env
                                    (status_event userId videoId ''processing'' 80
                                       ''Generating thumbnail...'')
                                    (findByIdAndUpdate videoId
                                       (\<lambda>v. v\<lparr>processingProgress := 80\<rparr>) w5)
                         in case pr_duration result of
                              None \<Rightarrow>
                                processingFailed env userId videoId (cast_error_message env) w6
                            | Some seconds \<Rightarrow>
                                emit env
                                  ((status_event userId videoId ''completed'' 100
                                      ''Processing complete'')
                                     \<lparr>ev_thumbnailPath := pr_thumbnailPath result,
                                      ev_duration := Some seconds,
                                      ev_durationFormatted := Some (formatDuration seconds),
                                      ev_sensitivityStatus := Some sensitivity\<rparr>)
                                  (findByIdAndUpdate videoId
                                     (\<lambda>v. v\<lparr>status := COMPLETED,
                                            duration := Some seconds,
                                            thumbnailPath := pr_thumbnailPath result,
                                            processingProgress := 100\<rparr>) w6)))))"


section \<open>Upload ingestion (utils/fileUpload.js and videoController.js, uploadVideo)\<close>

text \<open>\<^verbatim>\<open>req.file\<close> as the upload middleware hands it to the controller.\<close>

record UploadedFile =
  uf_filename :: string
  uf_originalname :: string
  uf_path :: string
  uf_size :: nat
  uf_mimetype :: string

definition ALLOWED_VIDEO_TYPES :: "string list" where
  "ALLOWED_VIDEO_TYPES =
     [''video/mp4'', ''video/mpeg'', ''video/quicktime'', ''video/x-msvideo'', ''video/webm'',
      ''video/x-matroska'', ''video/avi'', ''video/mkv'']"

definition ALLOWED_EXTENSIONS :: "string list" where
  "ALLOWED_EXTENSIONS = [''.mp4'', ''.mpeg'', ''.mov'', ''.avi'', ''.webm'', ''.mkv'']"

definition DEFAULT_MAX_SIZE :: nat where
  "DEFAULT_MAX_SIZE = 500 * 1024 * 1024"

text \<open>
  \<^verbatim>\<open>path.extname\<close> on a file name: from the last dot of the last path segment to the
  end, empty when that segment has no dot or only a leading one.
\<close>

definition extname :: "string \<Rightarrow> string" where
  "extname p =
     (let base = rev (takeWhile (\<lambda>c. c \<noteq> CHR ''/'') (rev p));
          ext = rev (takeWhile (\<lambda>c. c \<noteq> CHR ''.'') (rev base))
      in if CHR ''.'' \<notin> set base then []
         else if length base = Suc (length ext) then []
         else CHR ''.'' # ext)"

definition videoFileFilter :: "UploadedFile \<Rightarrow> bool" where
  "videoFileFilter file =
     (if uf_mimetype file \<notin> set ALLOWED_VIDEO_TYPES then False
      else if toLowerCase (extname (uf_originalname file)) \<notin> set ALLOWED_EXTENSIONS then False
      else True)"

text \<open>\<open>envSize\<close> is \<^verbatim>\<open>parseInt(process.env.MAX_FILE_SIZE)\<close> when that is set and a number.\<close>

definition getMaxFileSize :: "nat option \<Rightarrow> nat" where
  "getMaxFileSize envSize = (case envSize of Some n \<Rightarrow> n | None \<Rightarrow> DEFAULT_MAX_SIZE)"

text \<open>
  The upload middleware lets a file through to the controller: the filter accepts it
  and its size stays under the limit (a file that reaches the limit is refused).
\<close>

definition uploadAccepted :: "nat option \<Rightarrow> UploadedFile \<Rightarrow> bool" where
  "uploadAccepted envSize file = (videoFileFilter file \<and> uf_size file < getMaxFileSize envSize)"

record UploadRequest =
  ur_file :: "UploadedFile option"
  ur_title :: "string option"
  ur_description :: "string option"
  ur_tags :: "string option"
  ur_user :: Decoded

text \<open>\<^verbatim>\<open>deleteFile(filepath)\<close>\<close>

definition deleteFile :: "string \<Rightarrow> World \<Rightarrow> World" where
  "deleteFile path w = w\<lparr>files := (files w)(path := None)\<rparr>"

text \<open>The validators of the schema, in the order of its paths.\<close>

definition SCHEMA_MIME_TYPES :: "string list" where
  "SCHEMA_MIME_TYPES =
     [''video/mp4'', ''video/mpeg'', ''video/quicktime'', ''video/x-msvideo'', ''video/webm'',
      ''video/x-matroska'']"

definition validation_errors :: "Video \<Rightarrow> string list" where
  "validation_errors v =
     (if title v = [] then [''Video title is required''] else []) @
     (if length (title v) > 200 then [''Title cannot exceed 200 characters''] else []) @
     (if length (description v) > 2000 then [''Description cannot exceed 2000 characters''] else []) @
     (if filename v = [] then [''Filename is required''] else []) @
     (if originalFilename v = [] then [''Original filename is required''] else []) @
     (if filepath v = [] then [''Filepath is required''] else []) @
     (if mimeType v \<notin> set SCHEMA_MIME_TYPES then [''Unsupported video format''] else []) @
     (if processingProgress v > 100 then [''Progress cannot exceed 100''] else [])"

text \<open>A new ObjectId: one that no document of the collection has.\<close>

definition fresh_id :: "Video list \<Rightarrow> nat" where
  "fresh_id vs = Suc (fold max (map vid vs) 0)"

text \<open>
  \<^verbatim>\<open>Video.create(videoData)\<close>: the setters of the schema trim the strings, the document
  is validated, the \<^verbatim>\<open>pre('save')\<close> hook runs and the document is inserted unless its
  file name is taken (unique index).
\<close>

definition Video_create :: "Env \<Rightarrow> Video \<Rightarrow> World \<Rightarrow> (Failure + Video) \<times> World" where
  "Video_create env videoData w =
     (let doc = videoData\<lparr>vid := fresh_id (videos w),
                           title := trim (title videoData),
                           description := trim (description videoData),
                           filename := trim (filename videoData),
                           originalFilename := trim (originalFilename videoData),
                           organization := map_option trim (organization videoData)\<rparr>
      in if validation_errors doc \<noteq> [] then (Inl (ValidationError (validation_errors doc)), w)
         else
           (let doc' = preSave env doc
            in if list_ex (\<lambda>v. filename v = filename doc') (videos w)
               then (Inl (DuplicateKey (filename doc')), w)
               else (Inr doc', w\<lparr>videos := videos w @ [doc']\<rparr>)))"

text \<open>\<^verbatim>\<open>video.save()\<close> of a document whose validated paths still hold.\<close>

definition Video_save :: "Env \<Rightarrow> Video \<Rightarrow> World \<Rightarrow> Video \<times> World" where
  "Video_save env video w =
     (let video' = preSave env video
      in (video', w\<lparr>videos := update_first (vid video') (\<lambda>old. video') (videos w)\<rparr>))"

text \<open>
  The controller. The third component of the result is the call
  \<^verbatim>\<open>processVideoInBackground(videoId, uploadedFilePath)\<close> it starts without awaiting it:
  the response is built from the document as the controller holds it, before the
  orchestrator has done any work.
\<close>

definition uploadVideo ::
  "Env \<Rightarrow> World \<Rightarrow> UploadRequest \<Rightarrow> Outcome \<times> World \<times> (nat \<times> string) option" where
  "uploadVideo env w req =
     (case ur_file req of
        None \<Rightarrow>
          (Responded (errorResponse ''No video file uploaded. Please select a video file.''
                        HttpStatus_BAD_REQUEST), w, None)
      | Some file \<Rightarrow>
          (let uploadedFilePath = uf_path file
           in if \<not> truthy (ur_title req) \<or> trim (the (ur_title req)) = []
              then (Responded (errorResponse ''Video title is required.'' HttpStatus_BAD_REQUEST),
                    deleteFile uploadedFilePath w, None)
              else
                (let videoData =
                       \<lparr>vid = 0,
                        title = trim (the (ur_title req)),
                        description = (if truthy (ur_description req)
                                       then trim (the (ur_description req)) else []),
                        filename = uf_filename file,
                        originalFilename = uf_originalname file,
                        filepath = uf_path file,
                        filesize = uf_size file,
                        duration = None,
                        mimeType = uf_mimetype file,
                        resolution_width = None,
                        resolution_height = None,
                        bitrate = None,
                        codec = None,
                        uploadedBy = d_userId (ur_user req),
                        organization = (if truthy (d_organization (ur_user req))
                                        then d_organization (ur_user req) else None),
                        status = UPLOADING,
                        sensitivityStatus = PENDING,
                        processingProgress = 0,
                        processingError = None,
                        thumbnailPath = None,
                        tags = (if truthy (ur_tags req)
                                then filter (\<lambda>t. t \<noteq> [])
                                       (map (\<lambda>t. toLowerCase (trim t))
                                          (split_on CHR '','' (the (ur_tags req))))
                                else []),
                        viewCount = 0,
                        isPublic = False,
                        isDeleted = False\<rparr>
                 in case Video_create env videoData w of
                      (Inl err, w1) \<Rightarrow> (NextError err, deleteFile uploadedFilePath w1, None)
                    | (Inr created, w1) \<Rightarrow>
                        (case Video_save env
                                (created\<lparr>status := PROCESSING, processingProgress := 10\<rparr>) w1 of
                           (video, w2) \<Rightarrow>
                             (Responded
                                \<lparr>resp_status = HttpStatus_CREATED, resp_headers = [],
                                 resp_body =
                                   JsonUpload True ''Video uploaded successfully. Processing started.''
                                     \<lparr>ack_id = vid video,
                                      ack_title = title video,
                                      ack_description = description video,
                                      ack_filename = filename video,
                                      ack_originalFilename = originalFilename video,
                                      ack_filesize = filesize video,
                                      ack_mimeType = mimeType video,
                                      ack_status = status video,
                                      ack_sensitivityStatus = sensitivityStatus video,
                                      ack_processingProgress = processingProgress video\<rparr>\<rparr>,
                              w2, Some (vid video, uploadedFilePath))))))"


section \<open>Status channel, client side (services/socketService.js)\<close>

text \<open>
  A callback is known by its identity, a number. \<^verbatim>\<open>addListener\<close> wraps it in a new
  function object each time; \<open>h_id\<close> is the identity of that wrapper.
\<close>

record Handler =
  h_id :: nat
  h_callback :: nat

text \<open>The socket of the transport library: its connection flag and its listeners.\<close>

record Socket =
  sock_connected :: bool
  sock_handlers :: "(string \<times> Handler) list"

record SocketService =
  socket :: "Socket option"
  isConnected :: bool
  listeners :: "string \<Rightarrow> Handler option"
  pendingSubscriptions :: "(string \<times> nat) list"
  handlersCreated :: nat

definition newSocketService :: SocketService where
  "newSocketService =
     \<lparr>socket = None, isConnected = False, listeners = (\<lambda>e. None),
      pendingSubscriptions = [], handlersCreated = 0\<rparr>"

text \<open>\<^verbatim>\<open>socket.off(eventName, handler)\<close>: the first listener that is this function goes.\<close>

fun socket_off :: "string \<Rightarrow> Handler \<Rightarrow> (string \<times> Handler) list \<Rightarrow> (string \<times> Handler) list" where
  "socket_off e h [] = []"
| "socket_off e h (x # xs) = (if x = (e, h) then xs else x # socket_off e h xs)"

definition addListener :: "string \<Rightarrow> nat \<Rightarrow> SocketService \<Rightarrow> SocketService" where
  "addListener eventName callback s =
     (case socket s of
        None \<Rightarrow> s
      | Some sock \<Rightarrow>
          (let handler = \<lparr>h_id = handlersCreated s, h_callback = callback\<rparr>
           in s\<lparr>socket := Some (sock\<lparr>sock_handlers := sock_handlers sock @ [(eventName, handler)]\<rparr>),
                listeners := (listeners s)(eventName := Some handler),
                handlersCreated := Suc (handlersCreated s)\<rparr>))"

text \<open>The \<^verbatim>\<open>while\<close> loop of \<^verbatim>\<open>processPendingSubscriptions\<close>, over the queue it empties.\<close>

fun drain_pending :: "(string \<times> nat) list \<Rightarrow> SocketService \<Rightarrow> SocketService" where
  "drain_pending [] s = s"
| "drain_pending ((eventName, callback) # rest) s = drain_pending rest (addListener eventName callback s)"

definition processPendingSubscriptions :: "SocketService \<Rightarrow> SocketService" where
  "processPendingSubscriptions s =
     drain_pending (pendingSubscriptions s) (s\<lparr>pendingSubscriptions := []\<rparr>)"

text \<open>
  \<^verbatim>\<open>connect(token)\<close> creates the socket; the transport reports later, through the
  events \<^verbatim>\<open>connect\<close>, \<^verbatim>\<open>disconnect\<close> and \<^verbatim>\<open>reconnect\<close>, which are the next three functions.
\<close>

definition connect :: "string option \<Rightarrow> SocketService \<Rightarrow> SocketService" where
  "connect token s =
     (if (case socket s of None \<Rightarrow> False | Some sock \<Rightarrow> sock_connected sock) then s
      else if \<not> truthy token then s
      else s\<lparr>socket := Some \<lparr>sock_connected = False, sock_handlers = []\<rparr>\<rparr>)"

definition on_connect :: "SocketService \<Rightarrow> SocketService" where
  "on_connect s =
     (case socket s of
        None \<Rightarrow> s
      | Some sock \<Rightarrow>
          processPendingSubscriptions
            (s\<lparr>socket := Some (sock\<lparr>sock_connected := True\<rparr>), isConnected := True\<rparr>))"

definition on_disconnect :: "SocketService \<Rightarrow> SocketService" where
  "on_disconnect s =
     (case socket s of
        None \<Rightarrow> s
      | Some sock \<Rightarrow> s\<lparr>socket := Some (sock\<lparr>sock_connected := False\<rparr>), isConnected := False\<rparr>)"

definition on_reconnect :: "SocketService \<Rightarrow> SocketService" where
  "on_reconnect s = processPendingSubscriptions s"

definition disconnect :: "SocketService \<Rightarrow> SocketService" where
  "disconnect s =
     (case socket s of
        None \<Rightarrow> s
      | Some sock \<Rightarrow>
          s\<lparr>socket := None, isConnected := False, listeners := (\<lambda>e. None),
            pendingSubscriptions := []\<rparr>)"

definition videoStatusUpdate :: string where
  "videoStatusUpdate = ''videoStatusUpdate''"

text \<open>\<^verbatim>\<open>subscribeToVideoUpdates(callback)\<close>: the state after the call.\<close>

definition subscribeToVideoUpdates :: "nat \<Rightarrow> SocketService \<Rightarrow> SocketService" where
  "subscribeToVideoUpdates callback s =
     (case socket s of
        Some sock \<Rightarrow>
          if sock_connected sock then addListener videoStatusUpdate callback s
          else s\<lparr>pendingSubscriptions := pendingSubscriptions s @ [(videoStatusUpdate, callback)]\<rparr>
      | None \<Rightarrow>
          s\<lparr>pendingSubscriptions := pendingSubscriptions s @ [(videoStatusUpdate, callback)]\<rparr>)"

text \<open>
  The function \<^verbatim>\<open>subscribeToVideoUpdates(callback)\<close> returns: a call of it in state \<open>s\<close>.
\<close>

definition unsubscribe :: "nat \<Rightarrow> SocketService \<Rightarrow> SocketService" where
  "unsubscribe callback s =
     (let s1 =
            (case socket s of
               None \<Rightarrow> s
             | Some sock \<Rightarrow>
                 (case listeners s videoStatusUpdate of
                    None \<Rightarrow> s
                  | Some handler \<Rightarrow>
                      s\<lparr>socket := Some (sock\<lparr>sock_handlers :=
                                                socket_off videoStatusUpdate handler (sock_handlers sock)\<rparr>),
                        listeners := (listeners s)(videoStatusUpdate := None)\<rparr>))
      in s1\<lparr>pendingSubscriptions :=
              filter (\<lambda>sub. \<not> (fst sub = videoStatusUpdate \<and> snd sub = callback))
                (pendingSubscriptions s1)\<rparr>)"

text \<open>
  The callbacks that run, in order, when the server's event \<open>eventName\<close> reaches the
  client: those of the listeners the socket holds for it.
\<close>

definition delivered_to :: "string \<Rightarrow> SocketService \<Rightarrow> nat list" where
  "delivered_to eventName s =
     (case socket s of
        None \<Rightarrow> []
      | Some sock \<Rightarrow>
          (if sock_connected sock
           then map (\<lambda>x. h_callback (snd x)) (filter (\<lambda>x. fst x = eventName) (sock_handlers sock))
           else []))"


section \<open>Concrete inputs\<close>

text \<open>
  A small installation used to run the definitions: four users (an owner, a viewer of
  another organization, an administrator, a viewer of the owner's organization) and one
  stored video of 1000 bytes.
\<close>

definition ex_owner :: Decoded where
  "ex_owner = \<lparr>d_userId = 1, d_role = ''editor'', d_organization = Some ''acme''\<rparr>"

definition ex_viewer :: Decoded where
  "ex_viewer = \<lparr>d_userId = 2, d_role = ''viewer'', d_organization = Some ''globex''\<rparr>"

definition ex_admin :: Decoded where
  "ex_admin = \<lparr>d_userId = 3, d_role = ''admin'', d_organization = None\<rparr>"

definition ex_colleague :: Decoded where
  "ex_colleague = \<lparr>d_userId = 4, d_role = ''viewer'', d_organization = Some ''acme''\<rparr>"

definition ex_path :: string where
  "ex_path = ''uploads/videos/clip.mp4''"

definition ex_content :: "byte list" where
  "ex_content = replicate 1000 0"

definition ex_video :: Video where
  "ex_video =
     \<lparr>vid = 7, title = ''demo'', description = [], filename = ''clip.mp4'',
      originalFilename = ''holiday.mp4'', filepath = ex_path, filesize = 1000,
      duration = None, mimeType = ''video/mp4'', resolution_width = None,
      resolution_height = None, bitrate = None, codec = None, uploadedBy = 1,
      organization = Some ''acme'', status = COMPLETED, sensitivityStatus = SAFE,
      processingProgress = 100, processingError = None, thumbnailPath = None, tags = [],
      viewCount = 0, isPublic = False, isDeleted = False\<rparr>"

definition ex_files :: "string \<Rightarrow> byte list option" where
  "ex_files p = (if p = ex_path then Some ex_content else None)"

definition ex_world :: "Video \<Rightarrow> World" where
  "ex_world v = \<lparr>videos = [v], files = ex_files, emitted = [], calls = []\<rparr>"

definition ex_metadata :: VideoMetadata where
  "ex_metadata =
     \<lparr>md_duration = Some 10, md_bitrate = 800000,
      md_video = Some \<lparr>vs_codec = ''h264'', vs_width = 1280, vs_height = 720, vs_fps = 30\<rparr>,
      md_audio = True\<rparr>"

definition ex_env :: Env where
  "ex_env =
     \<lparr>jwt_verify = (\<lambda>t. if t = ''owner-token'' then Some ex_owner
                         else if t = ''viewer-token'' then Some ex_viewer
                         else if t = ''admin-token'' then Some ex_admin
                         else if t = ''colleague-token'' then Some ex_colleague
                         else None),
      ffmpeg_available = True,
      ffprobe = (\<lambda>p. Inr ex_metadata),
      screenshots = (\<lambda>p. Inr ''thumb_1.png''),
      rand_first = 1 / 2,
      rand_second = 1 / 2,
      global_io = True,
      user_organization = (\<lambda>u. if u = 1 then Some (Some ''acme'')
                                else if u = 2 then Some (Some ''globex'')
                                else if u = 3 then Some None
                                else if u = 4 then Some (Some ''acme'')
                                else None),
      cast_error_message = ''Cast to Number failed for value NaN at path duration''\<rparr>"

text \<open>The example video as the upload controller leaves it, and three other runs.\<close>

definition ex_uploaded :: Video where
  "ex_uploaded =
     ex_video\<lparr>status := PROCESSING, sensitivityStatus := PENDING, processingProgress := 10\<rparr>"

definition ex_env_probe_error :: Env where
  "ex_env_probe_error = ex_env\<lparr>ffprobe := (\<lambda>p. Inl ''moov atom not found'')\<rparr>"

definition ex_env_thumbnail_error :: Env where
  "ex_env_thumbnail_error = ex_env\<lparr>screenshots := (\<lambda>p. Inl ''Output file is empty'')\<rparr>"

definition ex_env_no_ffmpeg :: Env where
  "ex_env_no_ffmpeg = ex_env\<lparr>ffmpeg_available := False\<rparr>"

definition ex_upload :: UploadRequest where
  "ex_upload =
     \<lparr>ur_file = Some \<lparr>uf_filename = ''clip.mp4'', uf_originalname = ''holiday.mp4'',
                       uf_path = ex_path, uf_size = 1000, uf_mimetype = ''video/mp4''\<rparr>,
      ur_title = Some ''demo'', ur_description = None, ur_tags = None, ur_user = ex_owner\<rparr>"

definition ex_empty_world :: World where
  "ex_empty_world = \<lparr>videos = [], files = ex_files, emitted = [], calls = []\<rparr>"


section \<open>Auxiliary facts\<close>

subsection \<open>Decimal numerals\<close>

lemma digit_char_facts:
  assumes "d < 10"
  shows "is_digit (digit_char d)" and "digit_val (digit_char d) = d"
proof -
  from assms have "d \<in> {0, 1, 2, 3, 4, 5, 6, 7, 8, 9}" by auto
  then show "is_digit (digit_char d)" and "digit_val (digit_char d) = d"
    by (auto simp add: digit_char_def is_digit_def digit_val_def)
qed

lemma is_digit_not_special:
  assumes "is_digit c"
  shows "\<not> js_whitespace c" and "c \<noteq> CHR ''-''" and "c \<noteq> CHR ''+''" and "c \<noteq> CHR '',''"
  using assms by (auto simp add: is_digit_def js_whitespace_def)

lemma show_nat_digits: "\<forall>c \<in> set (show_nat n). is_digit c"
proof (induction n rule: show_nat.induct)
  case (1 n)
  show ?case
  proof (cases "n < 10")
    case True
    then show ?thesis by (simp add: show_nat.simps [of n] digit_char_facts)
  next
    case False
    with 1 show ?thesis by (simp add: show_nat.simps [of n] digit_char_facts)
  qed
qed

lemma show_nat_nonempty: "show_nat n \<noteq> []"
  by (subst show_nat.simps) simp

lemma digits_value_append:
  "digits_value acc (xs @ ys) = digits_value (digits_value acc xs) ys"
  by (induction xs arbitrary: acc) simp_all

lemma digits_value_show_nat: "digits_value 0 (show_nat n) = n"
proof (induction n rule: show_nat.induct)
  case (1 n)
  show ?case
  proof (cases "n < 10")
    case True
    then show ?thesis by (simp add: show_nat.simps [of n] digit_char_facts)
  next
    case False
    with 1 show ?thesis
      by (simp add: show_nat.simps [of n] digits_value_append digit_char_facts)
  qed
qed

lemma parseInt_show_nat_then:
  assumes "rest = [] \<or> \<not> is_digit (hd rest)"
  shows "parseInt (show_nat n @ rest) = Some (int n)"
proof -
  obtain c cs where sn: "show_nat n = c # cs"
    using show_nat_nonempty [of n] by (cases "show_nat n") auto
  have dig: "\<forall>x \<in> set (c # cs). is_digit x"
    using show_nat_digits [of n] sn by simp
  then have c: "is_digit c" by simp
  have tw: "takeWhile is_digit ((c # cs) @ rest) = c # cs"
  proof -
    have "takeWhile is_digit rest = []" using assms by (cases rest) auto
    moreover have "takeWhile is_digit ((c # cs) @ rest) = (c # cs) @ takeWhile is_digit rest"
      using dig by (intro takeWhile_append2) auto
    ultimately show ?thesis by simp
  qed
  have "digits_value 0 (c # cs) = n" using digits_value_show_nat [of n] sn by simp
  with c tw show ?thesis
    using is_digit_not_special [OF c] sn
    by (simp add: parseInt_def Let_def del: digits_value.simps)
qed

lemma show_int_nat: "show_int (int n) = show_nat n"
  by (simp add: show_int_def)

lemma show_nat_values:
  "show_nat 0 = ''0''" "show_nat 99 = ''99''" "show_nat 100 = ''100''"
  "show_nat 900 = ''900''" "show_nat 999 = ''999''" "show_nat 1000 = ''1000''"
  by code_simp+

lemma parseInt_900: "parseInt ''900'' = Some 900"
  by code_simp

lemma parseInt_abc: "parseInt ''abc'' = None"
  by code_simp

subsection \<open>Splitting a Range header\<close>

lemma split_on_nonempty: "split_on d xs \<noteq> []"
  by (induction xs) (auto split: list.splits)

lemma split_on_before_sep:
  "d \<notin> set xs \<Longrightarrow> split_on d (xs @ d # ys) = xs # split_on d ys"
  by (induction xs) auto

lemma hd_split_on: "hd (split_on d xs) = takeWhile (\<lambda>c. c \<noteq> d) xs"
  by (induction xs) (auto simp add: split_on_nonempty split: list.splits)

lemma at_index_0: "at_index xs 0 = (case xs of [] \<Rightarrow> None | x # r \<Rightarrow> Some x)"
  by (cases xs) simp_all

lemma remove_first_bytes: "remove_first ''bytes='' (''bytes='' @ s) = s"
  by simp

lemma range_parts_900:
  "split_on CHR ''-'' (remove_first ''bytes='' ''bytes=900-'') = [''900'', []]"
  by code_simp

lemma range_parts_abc:
  "split_on CHR ''-'' (remove_first ''bytes='' ''bytes=abc-'') = [''abc'', []]"
  by code_simp

subsection \<open>The collection\<close>

lemma findOne_deleted:
  assumes "distinct (map vid vs)" and "findById vs i = Some v" and "isDeleted v"
  shows "findOne_notDeleted vs i = None"
proof -
  from assms(2) have v: "v \<in> set vs" "vid v = i"
    by (auto simp add: findById_def find_Some_iff)
  have "isDeleted x" if "x \<in> set vs" "vid x = i" for x
  proof -
    from assms(1) have "inj_on vid (set vs)" by (simp add: distinct_map)
    with that v have "x = v" by (auto simp add: inj_on_def)
    with assms(3) show ?thesis by simp
  qed
  then show ?thesis by (auto simp add: findOne_notDeleted_def find_None_iff)
qed

lemma findById_update_first:
  assumes "\<And>v. vid (f v) = vid v"
  shows "findById (update_first i f vs) j =
           (if j = i then map_option f (findById vs i) else findById vs j)"
  using assms by (induction vs) (auto simp add: findById_def)

lemma fold_max_ge_start: "(a::nat) \<le> fold max xs a"
proof (induction xs arbitrary: a)
  case Nil
  then show ?case by simp
next
  case (Cons y ys)
  have "a \<le> max y a" by simp
  also have "max y a \<le> fold max ys (max y a)" by (rule Cons.IH)
  finally show ?case by simp
qed

lemma fold_max_ge_member: "x \<in> set xs \<Longrightarrow> x \<le> fold max xs (a::nat)"
proof (induction xs arbitrary: a)
  case Nil
  then show ?case by simp
next
  case (Cons y ys)
  show ?case
  proof (cases "x = y")
    case True
    have "y \<le> max y a" by simp
    also have "max y a \<le> fold max ys (max y a)" by (rule fold_max_ge_start)
    finally show ?thesis using True by simp
  next
    case False
    with Cons.prems have "x \<in> set ys" by simp
    then show ?thesis using Cons.IH by simp
  qed
qed

lemma find_append_none: "find P xs = None \<Longrightarrow> find P (xs @ ys) = find P ys"
  by (induction xs) (auto split: if_splits)

lemma fresh_id_unused: "v \<in> set vs \<Longrightarrow> vid v \<noteq> fresh_id vs"
  using fold_max_ge_member [of "vid v" "map vid vs" 0] by (auto simp add: fresh_id_def)

lemma findById_append_fresh:
  assumes "vid d = fresh_id vs"
  shows "findById (vs @ [d]) (fresh_id vs) = Some d"
proof -
  have "find (\<lambda>v. vid v = fresh_id vs) vs = None"
    using fresh_id_unused by (auto simp add: find_None_iff)
  then show ?thesis using assms by (simp add: findById_def find_append_none)
qed

lemma findById_replace:
  assumes "findById vs i = Some v0" and "vid v' = i"
  shows "findById (update_first i (\<lambda>old. v') vs) i = Some v'"
  using assms by (induction vs) (auto simp add: findById_def split: if_splits)

lemma preSave_keeps:
  "vid (preSave env v) = vid v" "status (preSave env v) = status v"
  "processingProgress (preSave env v) = processingProgress v"
  "sensitivityStatus (preSave env v) = sensitivityStatus v"
  "duration (preSave env v) = duration v"
  "resolution_width (preSave env v) = resolution_width v"
  "resolution_height (preSave env v) = resolution_height v"
  "bitrate (preSave env v) = bitrate v" "codec (preSave env v) = codec v"
  "thumbnailPath (preSave env v) = thumbnailPath v"
  "processingError (preSave env v) = processingError v"
  "filename (preSave env v) = filename v"
  by (simp_all add: preSave_def split: option.splits)

subsection \<open>The streaming handler\<close>

lemma streamVideo_passes_gate:
  assumes "tok \<noteq> []"
    and "jwt_verify env tok = Some decoded"
    and "findById (videos w) i = Some video"
    and "authorizationCheck decoded video"
    and "status video = COMPLETED"
    and "sensitivityStatus video = FLAGGED \<longrightarrow> d_role decoded = ''admin''"
  shows "streamVideo env w \<lparr>sr_id = Some i, sr_token = Some tok, sr_range = r\<rparr>
           = serveFile w video r"
  using assms by (auto simp add: streamVideo_def)

lemma serveFile_not_forbidden: "resp_status (serveFile w video r) \<noteq> 403"
  by (simp add: serveFile_def Let_def json_response_def HttpStatus_NOT_FOUND_def
        split: option.splits)

lemma serveFile_whole:
  assumes "filepath video \<noteq> []" and "files w (filepath video) = Some content"
  shows "serveFile w video None =
           \<lparr>resp_status = 200,
            resp_headers = [(''Content-Length'', show_nat (length content)),
                            (''Content-Type'', ''video/mp4'')],
            resp_body = FileBytes content\<rparr>"
  using assms by (simp add: serveFile_def show_int_nat)

lemma serveFile_first_range:
  assumes "filepath video \<noteq> []" and "files w (filepath video) = Some content"
    and "a \<le> b"
    and "tail = [] \<or> (\<not> is_digit (hd tail) \<and> hd tail \<noteq> CHR ''-'')"
  shows "serveFile w video (Some (''bytes='' @ show_nat a @ ''-'' @ show_nat b @ tail)) =
           \<lparr>resp_status = 206,
            resp_headers =
              [(''Content-Range'',
                  ''bytes '' @ show_nat a @ ''-'' @ show_nat b @ ''/'' @ show_nat (length content)),
               (''Accept-Ranges'', ''bytes''),
               (''Content-Length'', show_nat (b - a + 1)),
               (''Content-Type'', ''video/mp4'')],
            resp_body = FileBytes (take (b - a + 1) (drop a content))\<rparr>"
proof -
  let ?second = "show_nat b @ takeWhile (\<lambda>c. c \<noteq> CHR ''-'') tail"
  have nodash: "CHR ''-'' \<notin> set (show_nat n)" for n
    using show_nat_digits [of n] is_digit_not_special(2) by blast
  have parts: "split_on CHR ''-'' (show_nat a @ CHR ''-'' # show_nat b @ tail)
                 = show_nat a # split_on CHR ''-'' (show_nat b @ tail)"
    using split_on_before_sep [OF nodash, of a "show_nat b @ tail"] by simp
  have tw: "takeWhile (\<lambda>c. c \<noteq> CHR ''-'') (show_nat b @ tail) = ?second"
    using nodash [of b] by (intro takeWhile_append2) auto
  have second: "at_index (split_on CHR ''-'' (show_nat b @ tail)) 0 = Some ?second"
    using hd_split_on [of "CHR ''-''" "show_nat b @ tail"] tw
      split_on_nonempty [of "CHR ''-''" "show_nat b @ tail"]
    by (cases "split_on CHR ''-'' (show_nat b @ tail)") simp_all
  have rest_ok: "takeWhile (\<lambda>c. c \<noteq> CHR ''-'') tail = [] \<or>
                   \<not> is_digit (hd (takeWhile (\<lambda>c. c \<noteq> CHR ''-'') tail))"
    using assms(4) by (cases tail) auto
  have pa: "parseInt (show_nat a) = Some (int a)"
    using parseInt_show_nat_then [of "[]" a] by simp
  have pb: "parseInt ?second = Some (int b)"
    using parseInt_show_nat_then [OF rest_ok] .
  have ne: "?second \<noteq> []" using show_nat_nonempty [of b] by simp
  have len: "int b - int a + 1 = int (Suc (b - a))" using assms(3) by simp
  have len': "1 + int (b - a) = int (Suc (b - a))" by simp
  show ?thesis
    using assms(1,2,3) ne
    by (simp add: serveFile_def Let_def parts second pa pb js_number_string_def js_add_def
          js_sub_def createReadStream_def show_int_nat len len'
          del: of_nat_add of_nat_diff of_nat_Suc)
qed

lemma serveFile_900_open:
  assumes "filepath video \<noteq> []" and "files w (filepath video) = Some content"
    and "length content = 1000"
  shows "serveFile w video (Some ''bytes=900-'') =
           \<lparr>resp_status = 206,
            resp_headers = [(''Content-Range'', ''bytes 900-999/1000''),
                            (''Accept-Ranges'', ''bytes''),
                            (''Content-Length'', ''100''),
                            (''Content-Type'', ''video/mp4'')],
            resp_body = FileBytes (drop 900 content)\<rparr>"
  using assms
  by (simp add: serveFile_def range_parts_900 parseInt_900 show_nat_values show_int_def
        js_number_string_def js_add_def js_sub_def createReadStream_def)

lemma serveFile_abc:
  assumes "filepath video \<noteq> []" and "files w (filepath video) = Some content"
    and "length content = 1000"
  shows "serveFile w video (Some ''bytes=abc-'') =
           \<lparr>resp_status = 206,
            resp_headers = [(''Content-Range'', ''bytes NaN-999/1000''),
                            (''Accept-Ranges'', ''bytes''),
                            (''Content-Length'', ''NaN''),
                            (''Content-Type'', ''video/mp4'')],
            resp_body = NoBody\<rparr>"
  using assms
  by (simp add: serveFile_def range_parts_abc parseInt_abc show_nat_values show_int_def
        js_number_string_def js_add_def js_sub_def createReadStream_def)

text \<open>
  What the handler decides for a caller with a valid token who is neither administrator
  nor owner of the record: forbidden exactly when the record is not public and the
  caller has no organization or another one than the record's.
\<close>

lemma streamVideo_non_owner_rule:
  assumes "tok \<noteq> []"
    and "jwt_verify env tok = Some decoded"
    and "findById (videos w) i = Some video"
    and "d_role decoded \<noteq> ''admin''"
    and "uploadedBy video \<noteq> d_userId decoded"
  shows "(streamVideo env w \<lparr>sr_id = Some i, sr_token = Some tok, sr_range = r\<rparr> =
            json_response HttpStatus_FORBIDDEN False
              ''You do not have permission to access this video'')
          = (\<not> (isPublic video \<or>
                 (truthy (d_organization decoded) \<and>
                  organization video = d_organization decoded)))
         \<and> (isPublic video \<or>
              (truthy (d_organization decoded) \<and> organization video = d_organization decoded)
             \<longrightarrow> streamVideo env w \<lparr>sr_id = Some i, sr_token = Some tok, sr_range = r\<rparr> =
                   (if status video \<noteq> COMPLETED
                    then json_response HttpStatus_BAD_REQUEST False ''Video is still being processed''
                    else if sensitivityStatus video = FLAGGED
                    then json_response HttpStatus_FORBIDDEN False
                           ''Content flagged as sensitive. Admin access required.''
                    else serveFile w video r))"
proof -
  let ?granted = "isPublic video \<or>
      (truthy (d_organization decoded) \<and> organization video = d_organization decoded)"
  let ?after = "if status video \<noteq> COMPLETED
                then json_response HttpStatus_BAD_REQUEST False ''Video is still being processed''
                else if sensitivityStatus video = FLAGGED
                then json_response HttpStatus_FORBIDDEN False
                       ''Content flagged as sensitive. Admin access required.''
                else serveFile w video r"
  have check: "authorizationCheck decoded video = ?granted"
    using assms(4,5) by (auto simp add: authorizationCheck_def)
  have denied: "\<not> ?granted \<Longrightarrow>
      streamVideo env w \<lparr>sr_id = Some i, sr_token = Some tok, sr_range = r\<rparr> =
        json_response HttpStatus_FORBIDDEN False ''You do not have permission to access this video''"
    using assms(1,2,3) check by (simp add: streamVideo_def)
  have granted: "?granted \<Longrightarrow>
      streamVideo env w \<lparr>sr_id = Some i, sr_token = Some tok, sr_range = r\<rparr> = ?after"
    using assms(1,2,3,4) check by (simp add: streamVideo_def)
  have other: "?after \<noteq> json_response HttpStatus_FORBIDDEN False
                 ''You do not have permission to access this video''"
    using serveFile_not_forbidden [of w video r]
    by (auto simp add: json_response_def HttpStatus_FORBIDDEN_def HttpStatus_BAD_REQUEST_def)
  show ?thesis
    using denied granted other by (cases ?granted) simp_all
qed

subsection \<open>The orchestrator\<close>

lemma world_after_emit:
  "videos (emit env e w) = videos w"
  "files (emit env e w) = files w"
  "calls (emit env e w) = calls w"
  "emitted (emit env e w) = (if global_io env then emitted w @ [e] else emitted w)"
  by (simp_all add: emit_def)

lemma world_after_log_call:
  "videos (log_call c w) = videos w"
  "files (log_call c w) = files w"
  "calls (log_call c w) = calls w @ [c]"
  "emitted (log_call c w) = emitted w"
  by (simp_all add: log_call_def)

lemma world_after_update:
  "videos (findByIdAndUpdate i f w) = update_first i f (videos w)"
  "files (findByIdAndUpdate i f w) = files w"
  "calls (findByIdAndUpdate i f w) = calls w"
  "emitted (findByIdAndUpdate i f w) = emitted w"
  by (simp_all add: findByIdAndUpdate_def)

lemmas world_simps = world_after_emit world_after_log_call world_after_update

lemma analyzeSensitivity_settled: "analyzeSensitivity x t d \<noteq> PENDING"
  by (simp add: analyzeSensitivity_def Let_def)

lemma processVideo_probe_error:
  assumes "ffprobe env p = Inl m"
  shows "processVideo env p t d w =
           (Inl (''Video processing failed: Failed to read video metadata: '' @ m),
            log_call (CallFFprobe p) w)"
  using assms by (simp add: processVideo_def getVideoMetadata_def)

lemma processVideo_probed:
  assumes "ffprobe env p = Inr md"
  shows "processVideo env p t d w =
           (Inr \<lparr>pr_duration = js_round (md_duration md),
                 pr_thumbnailPath =
                   (case screenshots env p of
                      Inl e \<Rightarrow> None
                    | Inr name \<Rightarrow> Some (''uploads/thumbnails/'' @ name)),
                 pr_sensitivityStatus = analyzeSensitivity (rand_second env) t d,
                 pr_width = map_option vs_width (md_video md),
                 pr_height = map_option vs_height (md_video md),
                 pr_fps = map_option vs_fps (md_video md),
                 pr_codec = map_option vs_codec (md_video md),
                 pr_bitrate = md_bitrate md,
                 pr_hasAudio = md_audio md\<rparr>,
            log_call CallAnalyzeSensitivity (log_call (CallScreenshots p) (log_call (CallFFprobe p) w)))"
  using assms
  by (simp add: processVideo_def getVideoMetadata_def generateThumbnail_def Let_def
        split: sum.splits)

text \<open>The three ways through the orchestrator, as the worlds they end in.\<close>

lemma orchestrator_degraded:
  assumes "findById (videos w) i = Some video" and "\<not> ffmpeg_available env"
  shows "processVideoInBackground env i p w =
           emit env
             (status_event (uploadedBy video) i ''completed'' 100
                ''Video uploaded (FFmpeg not available for processing)'')
             (findByIdAndUpdate i (\<lambda>v. v\<lparr>status := COMPLETED, processingProgress := 100\<rparr>)
                (log_call CallCheckFFmpeg
                   (emit env (status_event (uploadedBy video) i ''processing'' 10 ''Processing started'') w)))"
  using assms by (simp add: processVideoInBackground_def Let_def)

lemma orchestrator_probe_error:
  assumes "findById (videos w) i = Some video" and "ffmpeg_available env"
    and "ffprobe env p = Inl m"
  shows "processVideoInBackground env i p w =
           (let msg = ''Video processing failed: Failed to read video metadata: '' @ m in
            emit env
              ((status_event (uploadedBy video) i ''failed'' 0 (''Processing failed: '' @ msg))
                 \<lparr>ev_error := Some msg\<rparr>)
              (findByIdAndUpdate i
                 (\<lambda>v. v\<lparr>status := FAILED, processingProgress := 0, processingError := Some msg\<rparr>)
                 (log_call (CallFFprobe p)
                    (findByIdAndUpdate i
                       (\<lambda>v. v\<lparr>sensitivityStatus :=
                                 analyzeSensitivity (rand_first env) (title video) (description video)\<rparr>)
                       (log_call CallAnalyzeSensitivity
                          (emit env
                             (status_event (uploadedBy video) i ''processing'' 30
                                ''Extracting metadata...'')
                             (findByIdAndUpdate i (\<lambda>v. v\<lparr>processingProgress := 30\<rparr>)
                                (log_call CallCheckFFmpeg
                                   (emit env
                                      (status_event (uploadedBy video) i ''processing'' 10
                                         ''Processing started'') w)))))))))"
  using assms
  by (simp add: processVideoInBackground_def processingFailed_def Let_def
        processVideo_probe_error)

lemma orchestrator_probed:
  assumes "findById (videos w) i = Some video" and "ffmpeg_available env"
    and "ffprobe env p = Inr md" and "md_duration md = Some d"
  shows "processVideoInBackground env i p w =
           (let thumb = (case screenshots env p of
                           Inl e \<Rightarrow> None
                         | Inr name \<Rightarrow> Some (''uploads/thumbnails/'' @ name));
                dur = \<lfloor>d + 1 / 2\<rfloor>;
                sens = analyzeSensitivity (rand_first env) (title video) (description video)
            in emit env
                 ((status_event (uploadedBy video) i ''completed'' 100 ''Processing complete'')
                    \<lparr>ev_thumbnailPath := thumb,
                     ev_duration := Some dur,
                     ev_durationFormatted := Some (formatDuration dur),
                     ev_sensitivityStatus := Some sens\<rparr>)
                 (findByIdAndUpdate i
                    (\<lambda>v. v\<lparr>status := COMPLETED, duration := Some dur,
                           thumbnailPath := thumb, processingProgress := 100\<rparr>)
                    (emit env
                       (status_event (uploadedBy video) i ''processing'' 80 ''Generating thumbnail...'')
                       (findByIdAndUpdate i (\<lambda>v. v\<lparr>processingProgress := 80\<rparr>)
                          (log_call CallAnalyzeSensitivity
                             (log_call (CallScreenshots p)
                                (log_call (CallFFprobe p)
                                   (findByIdAndUpdate i (\<lambda>v. v\<lparr>sensitivityStatus := sens\<rparr>)
                                      (log_call CallAnalyzeSensitivity
                                         (emit env
                                            (status_event (uploadedBy video) i ''processing'' 30
                                               ''Extracting metadata...'')
                                            (findByIdAndUpdate i (\<lambda>v. v\<lparr>processingProgress := 30\<rparr>)
                                               (log_call CallCheckFFmpeg
                                                  (emit env
                                                     (status_event (uploadedBy video) i
                                                        ''processing'' 10 ''Processing started'')
                                                     w)))))))))))))"
  using assms
  by (simp add: processVideoInBackground_def Let_def processVideo_probed js_round_def)

text \<open>
  The probe succeeds and reports a duration that is no number: the final update throws
  and the run ends in the \<^verbatim>\<open>catch\<close> block, after the event of progress 80.
\<close>

lemma orchestrator_duration_not_a_number:
  assumes "findById (videos w) i = Some video" and "ffmpeg_available env"
    and "ffprobe env p = Inr md" and "md_duration md = None"
  shows "processVideoInBackground env i p w =
           (let sens = analyzeSensitivity (rand_first env) (title video) (description video)
            in processingFailed env (uploadedBy video) i (cast_error_message env)
                 (emit env
                    (status_event (uploadedBy video) i ''processing'' 80 ''Generating thumbnail...'')
                    (findByIdAndUpdate i (\<lambda>v. v\<lparr>processingProgress := 80\<rparr>)
                       (log_call CallAnalyzeSensitivity
                          (log_call (CallScreenshots p)
                             (log_call (CallFFprobe p)
                                (findByIdAndUpdate i (\<lambda>v. v\<lparr>sensitivityStatus := sens\<rparr>)
                                   (log_call CallAnalyzeSensitivity
                                      (emit env
                                         (status_event (uploadedBy video) i ''processing'' 30
                                            ''Extracting metadata...'')
                                         (findByIdAndUpdate i (\<lambda>v. v\<lparr>processingProgress := 30\<rparr>)
                                            (log_call CallCheckFFmpeg
                                               (emit env
                                                  (status_event (uploadedBy video) i
                                                     ''processing'' 10 ''Processing started'')
                                                  w))))))))))))"
  using assms
  by (simp add: processVideoInBackground_def Let_def processVideo_probed js_round_def)

lemma duration_not_a_number_fails_record:
  assumes "findById (videos w) i = Some video" and "ffmpeg_available env"
    and "ffprobe env p = Inr md" and "md_duration md = None"
  shows "map_option (\<lambda>v. (status v, processingProgress v, processingError v))
           (findById (videos (processVideoInBackground env i p w)) i)
         = Some (FAILED, 0, Some (cast_error_message env))"
  using assms(1)
  by (simp add: orchestrator_duration_not_a_number [OF assms] processingFailed_def Let_def
        world_simps findById_update_first)

subsection \<open>The upload controller\<close>

text \<open>What an accepted upload leaves behind and answers.\<close>

lemma uploadVideo_accepted:
  assumes "uploadVideo env w req = (Responded resp, w1, Some (videoId, filePath))"
  shows "\<exists>v. findById (videos w1) videoId = Some v
              \<and> status v = PROCESSING \<and> processingProgress v = 10
              \<and> sensitivityStatus v = PENDING \<and> duration v = None
              \<and> resolution_width v = None \<and> resolution_height v = None
              \<and> bitrate v = None \<and> codec v = None \<and> thumbnailPath v = None
              \<and> calls w1 = calls w \<and> emitted w1 = emitted w
              \<and> resp_status resp = HttpStatus_CREATED
              \<and> (\<exists>msg ack. resp_body resp = JsonUpload True msg ack
                    \<and> ack_id ack = videoId \<and> ack_status ack = PROCESSING)"
proof -
  from assms obtain upl where upl: "ur_file req = Some upl"
    by (auto simp add: uploadVideo_def split: option.splits)
  define data where "data =
     \<lparr>vid = 0,
      title = trim (the (ur_title req)),
      description = (if truthy (ur_description req)
                     then trim (the (ur_description req)) else []),
      filename = uf_filename upl,
      originalFilename = uf_originalname upl,
      filepath = uf_path upl,
      filesize = uf_size upl,
      duration = None,
      mimeType = uf_mimetype upl,
      resolution_width = None,
      resolution_height = None,
      bitrate = None,
      codec = None,
      uploadedBy = d_userId (ur_user req),
      organization = (if truthy (d_organization (ur_user req))
                      then d_organization (ur_user req) else None),
      status = UPLOADING,
      sensitivityStatus = PENDING,
      processingProgress = 0,
      processingError = None,
      thumbnailPath = None,
      tags = (if truthy (ur_tags req)
              then filter (\<lambda>t. t \<noteq> [])
                     (map (\<lambda>t. toLowerCase (trim t))
                        (split_on CHR '','' (the (ur_tags req))))
              else []),
      viewCount = 0,
      isPublic = False,
      isDeleted = False\<rparr>"
  define doc where "doc =
     data\<lparr>vid := fresh_id (videos w),
          title := trim (title data),
          description := trim (description data),
          filename := trim (filename data),
          originalFilename := trim (originalFilename data),
          organization := map_option trim (organization data)\<rparr>"
  define created where "created = preSave env doc"
  define video where
    "video = preSave env (created\<lparr>status := PROCESSING, processingProgress := 10\<rparr>)"
  from assms upl have title_ok: "truthy (ur_title req)" "trim (the (ur_title req)) \<noteq> []"
    by (auto simp add: uploadVideo_def Let_def split: if_splits)
  have unfolded: "uploadVideo env w req =
      (case Video_create env data w of
         (Inl err, wa) \<Rightarrow> (NextError err, deleteFile (uf_path upl) wa, None)
       | (Inr c, wa) \<Rightarrow>
           (case Video_save env (c\<lparr>status := PROCESSING, processingProgress := 10\<rparr>) wa of
              (v, wb) \<Rightarrow>
                (Responded
                   \<lparr>resp_status = HttpStatus_CREATED, resp_headers = [],
                    resp_body =
                      JsonUpload True ''Video uploaded successfully. Processing started.''
                        \<lparr>ack_id = vid v,
                         ack_title = title v,
                         ack_description = description v,
                         ack_filename = filename v,
                         ack_originalFilename = originalFilename v,
                         ack_filesize = filesize v,
                         ack_mimeType = mimeType v,
                         ack_status = status v,
                         ack_sensitivityStatus = sensitivityStatus v,
                         ack_processingProgress = processingProgress v\<rparr>\<rparr>,
                 wb, Some (vid v, uf_path upl))))"
    using upl title_ok by (simp add: uploadVideo_def Let_def data_def)
  have create_cases: "Video_create env data w = (Inr created, w\<lparr>videos := videos w @ [created]\<rparr>)
      \<or> (\<exists>err. Video_create env data w = (Inl err, w))"
    by (simp add: Video_create_def Let_def doc_def [symmetric] created_def [symmetric])
  have created_ok: "Video_create env data w = (Inr created, w\<lparr>videos := videos w @ [created]\<rparr>)"
    using create_cases assms unfolded by auto
  have result: "uploadVideo env w req =
      (Responded
         \<lparr>resp_status = HttpStatus_CREATED, resp_headers = [],
          resp_body =
            JsonUpload True ''Video uploaded successfully. Processing started.''
              \<lparr>ack_id = vid video,
               ack_title = title video,
               ack_description = description video,
               ack_filename = filename video,
               ack_originalFilename = originalFilename video,
               ack_filesize = filesize video,
               ack_mimeType = mimeType video,
               ack_status = status video,
               ack_sensitivityStatus = sensitivityStatus video,
               ack_processingProgress = processingProgress video\<rparr>\<rparr>,
       w\<lparr>videos := update_first (vid video) (\<lambda>old. video) (videos w @ [created])\<rparr>,
       Some (vid video, uf_path upl))"
    by (simp add: unfolded created_ok Video_save_def Let_def video_def [symmetric])
  have fields: "vid video = fresh_id (videos w)" "status video = PROCESSING"
    "processingProgress video = 10" "sensitivityStatus video = PENDING"
    "duration video = None" "resolution_width video = None" "resolution_height video = None"
    "bitrate video = None" "codec video = None" "thumbnailPath video = None"
    "vid created = fresh_id (videos w)"
    by (simp_all add: video_def created_def doc_def data_def preSave_keeps)
  have found: "findById (videos w @ [created]) (fresh_id (videos w)) = Some created"
    by (rule findById_append_fresh) (rule fields)
  have after: "findById (update_first (vid video) (\<lambda>old. video) (videos w @ [created]))
                 (vid video) = Some video"
    using findById_replace [OF found fields(1)] fields(1) by simp
  have eqs:
    "resp = \<lparr>resp_status = HttpStatus_CREATED, resp_headers = [],
             resp_body =
               JsonUpload True ''Video uploaded successfully. Processing started.''
                 \<lparr>ack_id = vid video,
                  ack_title = title video,
                  ack_description = description video,
                  ack_filename = filename video,
                  ack_originalFilename = originalFilename video,
                  ack_filesize = filesize video,
                  ack_mimeType = mimeType video,
                  ack_status = status video,
                  ack_sensitivityStatus = sensitivityStatus video,
                  ack_processingProgress = processingProgress video\<rparr>\<rparr>"
    "w1 = w\<lparr>videos := update_first (vid video) (\<lambda>old. video) (videos w @ [created])\<rparr>"
    "videoId = vid video"
    using trans [OF result [symmetric] assms] by auto
  show ?thesis
    using after fields by (intro exI [of _ video]) (simp add: eqs)
qed

subsection \<open>The status channel\<close>

lemma unsubscribe_twice: "unsubscribe c (unsubscribe c s) = unsubscribe c s"
  by (simp add: unsubscribe_def Let_def split: option.splits)

lemma unsubscribe_purges_pending:
  "(videoStatusUpdate, c) \<notin> set (pendingSubscriptions (unsubscribe c s))"
  by (simp add: unsubscribe_def Let_def split: option.splits)

lemma unsubscribe_adds_no_listener:
  "set (delivered_to e (unsubscribe c s)) \<subseteq> set (delivered_to e s)"
proof -
  have off: "set (socket_off e' h hs) \<subseteq> set hs" for e' h hs
    by (induction hs) auto
  show ?thesis
    using off
    by (fastforce simp add: unsubscribe_def delivered_to_def Let_def split: option.splits)
qed

subsection \<open>The concrete inputs\<close>

lemma ex_tokens:
  "jwt_verify ex_env ''owner-token'' = Some ex_owner"
  "jwt_verify ex_env ''viewer-token'' = Some ex_viewer"
  "jwt_verify ex_env ''admin-token'' = Some ex_admin"
  "jwt_verify ex_env ''colleague-token'' = Some ex_colleague"
  by (simp_all add: ex_env_def)

lemma ex_find: "vid v = 7 \<Longrightarrow> findById (videos (ex_world v)) 7 = Some v"
  by (simp add: ex_world_def findById_def)

lemma ex_file: "files (ex_world v) ex_path = Some ex_content" "length ex_content = 1000"
  "ex_path \<noteq> []"
  by (simp_all add: ex_world_def ex_files_def ex_content_def ex_path_def)

lemma ex_video_fields:
  "vid ex_video = 7" "filepath ex_video = ex_path" "uploadedBy ex_video = 1"
  "organization ex_video = Some ''acme''" "status ex_video = COMPLETED"
  "sensitivityStatus ex_video = SAFE" "isPublic ex_video = False" "isDeleted ex_video = False"
  "title ex_video = ''demo''" "description ex_video = []"
  by (simp_all add: ex_video_def)

lemma ex_users:
  "d_userId ex_owner = 1" "d_role ex_owner = ''editor''" "d_organization ex_owner = Some ''acme''"
  "d_userId ex_viewer = 2" "d_role ex_viewer = ''viewer''" "d_organization ex_viewer = Some ''globex''"
  "d_userId ex_admin = 3" "d_role ex_admin = ''admin''" "d_organization ex_admin = None"
  "d_userId ex_colleague = 4" "d_role ex_colleague = ''viewer''"
  "d_organization ex_colleague = Some ''acme''"
  by (simp_all add: ex_owner_def ex_viewer_def ex_admin_def ex_colleague_def)

lemma ex_uploaded_fields:
  "vid ex_uploaded = 7" "uploadedBy ex_uploaded = 1" "title ex_uploaded = ''demo''"
  "description ex_uploaded = []" "sensitivityStatus ex_uploaded = PENDING"
  "status ex_uploaded = PROCESSING"
  by (simp_all add: ex_uploaded_def ex_video_def)

lemma ex_env_runs:
  "ffmpeg_available ex_env_probe_error" "global_io ex_env_probe_error"
  "ffprobe ex_env_probe_error ex_path = Inl ''moov atom not found''"
  "ffmpeg_available ex_env_thumbnail_error" "global_io ex_env_thumbnail_error"
  "ffprobe ex_env_thumbnail_error ex_path = Inr ex_metadata"
  "screenshots ex_env_thumbnail_error ex_path = Inl ''Output file is empty''"
  "\<not> ffmpeg_available ex_env_no_ffmpeg"
  "ffmpeg_available ex_env"
  by (simp_all add: ex_env_probe_error_def ex_env_thumbnail_error_def ex_env_no_ffmpeg_def
        ex_env_def)

lemma ex_world_fields: "calls (ex_world v) = []" "emitted (ex_world v) = []"
  by (simp_all add: ex_world_def)

lemma ex_upload_runs:
  "uploadVideo env ex_empty_world ex_upload =
     (Responded
        \<lparr>resp_status = 201, resp_headers = [],
         resp_body =
           JsonUpload True ''Video uploaded successfully. Processing started.''
             \<lparr>ack_id = 1, ack_title = ''demo'', ack_description = [],
              ack_filename = ''clip.mp4'', ack_originalFilename = ''holiday.mp4'',
              ack_filesize = 1000, ack_mimeType = ''video/mp4'', ack_status = PROCESSING,
              ack_sensitivityStatus = PENDING, ack_processingProgress = 10\<rparr>\<rparr>,
      ex_world (ex_uploaded\<lparr>vid := 1\<rparr>),
      Some (1, ex_path))"
  by (simp add: uploadVideo_def ex_upload_def ex_empty_world_def ex_world_def ex_owner_def
        Video_create_def Video_save_def validation_errors_def SCHEMA_MIME_TYPES_def preSave_def
        trim_def js_whitespace_def fresh_id_def ex_path_def HttpStatus_CREATED_def Let_def
        ex_uploaded_def ex_video_def)

lemma ex_upload_accepted: "uploadAccepted None (the (ur_file ex_upload))"
  by (simp add: uploadAccepted_def videoFileFilter_def ex_upload_def ALLOWED_VIDEO_TYPES_def
        ALLOWED_EXTENSIONS_def extname_def toLowerCase_def toLowerChar_def getMaxFileSize_def
        DEFAULT_MAX_SIZE_def)


section \<open>Streaming gate\<close>

text \<open>
  Claim C1 says that a non-elevated caller who does not own the record is served only
  when the record is public and of the caller's organization. The handler serves more.
  A public video of organization \<open>acme\<close> is streamed to a viewer of organization
  \<open>globex\<close>, and a private video of organization \<open>acme\<close> is streamed to another
  member of \<open>acme\<close>. The metadata read path, asked by the same callers for the same
  records, answers forbidden both times.
\<close>

theorem C1_streaming_gate_wider_than_claimed:
  "d_role ex_viewer \<noteq> ''admin''
   \<and> uploadedBy (ex_video\<lparr>isPublic := True\<rparr>) \<noteq> d_userId ex_viewer
   \<and> isPublic (ex_video\<lparr>isPublic := True\<rparr>)
   \<and> organization (ex_video\<lparr>isPublic := True\<rparr>) \<noteq> d_organization ex_viewer
   \<and> streamVideo ex_env (ex_world (ex_video\<lparr>isPublic := True\<rparr>))
         \<lparr>sr_id = Some 7, sr_token = Some ''viewer-token'', sr_range = None\<rparr> =
       \<lparr>resp_status = 200,
        resp_headers = [(''Content-Length'', ''1000''), (''Content-Type'', ''video/mp4'')],
        resp_body = FileBytes ex_content\<rparr>
   \<and> fst (getVideoById ex_env (ex_world (ex_video\<lparr>isPublic := True\<rparr>)) ex_viewer (Some 7)) =
       Responded \<lparr>resp_status = 403, resp_headers = [],
                  resp_body = JsonMessage False ''You do not have permission to view this video''\<rparr>
   \<and> d_role ex_colleague \<noteq> ''admin''
   \<and> uploadedBy ex_video \<noteq> d_userId ex_colleague
   \<and> \<not> isPublic ex_video
   \<and> organization ex_video = d_organization ex_colleague
   \<and> streamVideo ex_env (ex_world ex_video)
         \<lparr>sr_id = Some 7, sr_token = Some ''colleague-token'', sr_range = None\<rparr> =
       \<lparr>resp_status = 200,
        resp_headers = [(''Content-Length'', ''1000''), (''Content-Type'', ''video/mp4'')],
        resp_body = FileBytes ex_content\<rparr>
   \<and> fst (getVideoById ex_env (ex_world ex_video) ex_colleague (Some 7)) =
       Responded \<lparr>resp_status = 403, resp_headers = [],
                  resp_body = JsonMessage False ''You do not have permission to view this video''\<rparr>"
proof -
  let ?v = "ex_video\<lparr>isPublic := True\<rparr>"
  have whole: "serveFile (ex_world v) v None =
       \<lparr>resp_status = 200,
        resp_headers = [(''Content-Length'', ''1000''), (''Content-Type'', ''video/mp4'')],
        resp_body = FileBytes ex_content\<rparr>" if "filepath v = ex_path" for v
    using serveFile_whole [of v "ex_world v" ex_content] that
    by (simp add: ex_file show_nat_values)
  have s1: "streamVideo ex_env (ex_world ?v)
          \<lparr>sr_id = Some 7, sr_token = Some ''viewer-token'', sr_range = None\<rparr>
        = serveFile (ex_world ?v) ?v None"
    using streamVideo_passes_gate
            [of "''viewer-token''" ex_env ex_viewer "ex_world ?v" 7 ?v None]
    by (simp add: ex_tokens ex_find ex_video_fields ex_users authorizationCheck_def)
  have s2: "streamVideo ex_env (ex_world ex_video)
          \<lparr>sr_id = Some 7, sr_token = Some ''colleague-token'', sr_range = None\<rparr>
        = serveFile (ex_world ex_video) ex_video None"
    using streamVideo_passes_gate
            [of "''colleague-token''" ex_env ex_colleague "ex_world ex_video" 7 ex_video None]
    by (simp add: ex_tokens ex_find ex_video_fields ex_users authorizationCheck_def)
  have g1: "fst (getVideoById ex_env (ex_world ?v) ex_viewer (Some 7)) =
       Responded \<lparr>resp_status = 403, resp_headers = [],
                  resp_body = JsonMessage False ''You do not have permission to view this video''\<rparr>"
    by (simp add: getVideoById_def findOne_notDeleted_def ex_world_def ex_video_def ex_env_def
          ex_viewer_def errorResponse_def json_response_def HttpStatus_FORBIDDEN_def Let_def)
  have g2: "fst (getVideoById ex_env (ex_world ex_video) ex_colleague (Some 7)) =
       Responded \<lparr>resp_status = 403, resp_headers = [],
                  resp_body = JsonMessage False ''You do not have permission to view this video''\<rparr>"
    by (simp add: getVideoById_def findOne_notDeleted_def ex_world_def ex_video_def ex_env_def
          ex_colleague_def errorResponse_def json_response_def HttpStatus_FORBIDDEN_def Let_def)
  show ?thesis
    by (simp add: s1 s2 g1 g2 whole ex_users ex_video_fields)
qed

text \<open>
  Claim C2. The state check and the verdict check come after the authorization check
  of the handler. On a completed record with verdict flagged a non-elevated caller is
  rejected as forbidden and an administrator's request goes on to the file part. On a
  record that is not completed, every caller who reaches the state check, that is who
  passes the authorization check (every administrator does), is rejected as not yet
  available; a caller turned away by the authorization check never reaches it.
\<close>

theorem C2_state_and_verdict_gate:
  assumes "tok \<noteq> []"
    and "jwt_verify env tok = Some decoded"
    and "findById (videos w) i = Some video"
  shows "(status video = COMPLETED \<and> sensitivityStatus video = FLAGGED \<and> d_role decoded \<noteq> ''admin''
            \<longrightarrow> resp_status (streamVideo env w \<lparr>sr_id = Some i, sr_token = Some tok, sr_range = r\<rparr>)
                  = HttpStatus_FORBIDDEN)
         \<and> (status video = COMPLETED \<and> sensitivityStatus video = FLAGGED \<and> d_role decoded = ''admin''
            \<longrightarrow> streamVideo env w \<lparr>sr_id = Some i, sr_token = Some tok, sr_range = r\<rparr>
                  = serveFile w video r)
         \<and> (status video \<noteq> COMPLETED \<and> authorizationCheck decoded video
            \<longrightarrow> streamVideo env w \<lparr>sr_id = Some i, sr_token = Some tok, sr_range = r\<rparr>
                  = json_response HttpStatus_BAD_REQUEST False ''Video is still being processed'')
         \<and> (status video \<noteq> COMPLETED \<and> d_role decoded = ''admin''
            \<longrightarrow> streamVideo env w \<lparr>sr_id = Some i, sr_token = Some tok, sr_range = r\<rparr>
                  = json_response HttpStatus_BAD_REQUEST False ''Video is still being processed'')
         \<and> (status video \<noteq> COMPLETED \<and> \<not> authorizationCheck decoded video
            \<longrightarrow> streamVideo env w \<lparr>sr_id = Some i, sr_token = Some tok, sr_range = r\<rparr>
                  = json_response HttpStatus_FORBIDDEN False
                      ''You do not have permission to access this video'')"
  using assms
  by (auto simp add: streamVideo_def authorizationCheck_def json_response_def)

text \<open>
  The flagged video asked for by its owner and by an administrator, and the same video
  still in processing asked for by both.
\<close>

theorem C2_state_and_verdict_gate_witness:
  "resp_status (streamVideo ex_env (ex_world (ex_video\<lparr>sensitivityStatus := FLAGGED\<rparr>))
      \<lparr>sr_id = Some 7, sr_token = Some ''owner-token'', sr_range = None\<rparr>) = 403
   \<and> resp_status (streamVideo ex_env (ex_world (ex_video\<lparr>sensitivityStatus := FLAGGED\<rparr>))
      \<lparr>sr_id = Some 7, sr_token = Some ''admin-token'', sr_range = None\<rparr>) = 200
   \<and> resp_status (streamVideo ex_env (ex_world (ex_video\<lparr>status := PROCESSING\<rparr>))
      \<lparr>sr_id = Some 7, sr_token = Some ''owner-token'', sr_range = None\<rparr>) = 400
   \<and> resp_status (streamVideo ex_env (ex_world (ex_video\<lparr>status := PROCESSING\<rparr>))
      \<lparr>sr_id = Some 7, sr_token = Some ''admin-token'', sr_range = None\<rparr>) = 400
   \<and> resp_status (streamVideo ex_env (ex_world (ex_video\<lparr>status := PROCESSING\<rparr>))
      \<lparr>sr_id = Some 7, sr_token = Some ''viewer-token'', sr_range = None\<rparr>) = 403"
proof -
  let ?f = "ex_video\<lparr>sensitivityStatus := FLAGGED\<rparr>"
  let ?p = "ex_video\<lparr>status := PROCESSING\<rparr>"
  have t: "''owner-token'' \<noteq> []" "''admin-token'' \<noteq> []" "''viewer-token'' \<noteq> []" by simp_all
  have ff: "findById (videos (ex_world ?f)) 7 = Some ?f"
    and fp: "findById (videos (ex_world ?p)) 7 = Some ?p"
    by (simp_all add: ex_find ex_video_fields)
  have whole: "resp_status (serveFile (ex_world ?f) ?f None) = 200"
    using serveFile_whole [of ?f "ex_world ?f" ex_content]
    by (simp add: ex_video_fields ex_file)
  show ?thesis
    using C2_state_and_verdict_gate [OF t(1) ex_tokens(1) ff, of None]
      C2_state_and_verdict_gate [OF t(2) ex_tokens(3) ff, of None]
      C2_state_and_verdict_gate [OF t(1) ex_tokens(1) fp, of None]
      C2_state_and_verdict_gate [OF t(2) ex_tokens(3) fp, of None]
      C2_state_and_verdict_gate [OF t(3) ex_tokens(2) fp, of None]
      whole
    by (simp add: ex_video_fields ex_users authorizationCheck_def json_response_def
          HttpStatus_FORBIDDEN_def HttpStatus_BAD_REQUEST_def)
qed


section \<open>Range server\<close>

text \<open>
  Claim C3. An authorized request on a completed record whose file has 1000 bytes:
  without a Range header the answer is 200 with Content-Length 1000 and the whole file;
  with \<^verbatim>\<open>bytes=0-99\<close> it is 206 with Content-Range \<^verbatim>\<open>bytes 0-99/1000\<close> and the first
  100 bytes; with \<^verbatim>\<open>bytes=900-\<close> it is 206 with the 100 bytes at offsets 900 to 999.
\<close>

theorem C3_range_correctness:
  assumes "tok \<noteq> []"
    and "jwt_verify env tok = Some decoded"
    and "findById (videos w) i = Some video"
    and "authorizationCheck decoded video"
    and "status video = COMPLETED"
    and "sensitivityStatus video = FLAGGED \<longrightarrow> d_role decoded = ''admin''"
    and "filepath video \<noteq> []"
    and "files w (filepath video) = Some content"
    and "length content = 1000"
  shows "streamVideo env w \<lparr>sr_id = Some i, sr_token = Some tok, sr_range = None\<rparr> =
           \<lparr>resp_status = 200,
            resp_headers = [(''Content-Length'', ''1000''), (''Content-Type'', ''video/mp4'')],
            resp_body = FileBytes content\<rparr>
         \<and> streamVideo env w \<lparr>sr_id = Some i, sr_token = Some tok, sr_range = Some ''bytes=0-99''\<rparr> =
           \<lparr>resp_status = 206,
            resp_headers = [(''Content-Range'', ''bytes 0-99/1000''),
                            (''Accept-Ranges'', ''bytes''),
                            (''Content-Length'', ''100''),
                            (''Content-Type'', ''video/mp4'')],
            resp_body = FileBytes (take 100 content)\<rparr>
         \<and> length (take 100 content) = 100
         \<and> streamVideo env w \<lparr>sr_id = Some i, sr_token = Some tok, sr_range = Some ''bytes=900-''\<rparr> =
           \<lparr>resp_status = 206,
            resp_headers = [(''Content-Range'', ''bytes 900-999/1000''),
                            (''Accept-Ranges'', ''bytes''),
                            (''Content-Length'', ''100''),
                            (''Content-Type'', ''video/mp4'')],
            resp_body = FileBytes (drop 900 content)\<rparr>
         \<and> length (drop 900 content) = 100
         \<and> (\<forall>k < 100. drop 900 content ! k = content ! (900 + k))"
proof -
  have gate: "streamVideo env w \<lparr>sr_id = Some i, sr_token = Some tok, sr_range = r\<rparr>
                = serveFile w video r" for r
    using streamVideo_passes_gate [OF assms(1-6)] .
  have whole: "serveFile w video None =
                 \<lparr>resp_status = 200,
                  resp_headers = [(''Content-Length'', ''1000''), (''Content-Type'', ''video/mp4'')],
                  resp_body = FileBytes content\<rparr>"
    using serveFile_whole [OF assms(7,8)] assms(9) by (simp add: show_nat_values)
  have first: "serveFile w video (Some ''bytes=0-99'') =
                 \<lparr>resp_status = 206,
                  resp_headers = [(''Content-Range'', ''bytes 0-99/1000''),
                                  (''Accept-Ranges'', ''bytes''),
                                  (''Content-Length'', ''100''),
                                  (''Content-Type'', ''video/mp4'')],
                  resp_body = FileBytes (take 100 content)\<rparr>"
    using serveFile_first_range [OF assms(7,8), of 0 99 "[]"] assms(9)
    by (simp add: show_nat_values)
  have last: "serveFile w video (Some ''bytes=900-'') =
                 \<lparr>resp_status = 206,
                  resp_headers = [(''Content-Range'', ''bytes 900-999/1000''),
                                  (''Accept-Ranges'', ''bytes''),
                                  (''Content-Length'', ''100''),
                                  (''Content-Type'', ''video/mp4'')],
                  resp_body = FileBytes (drop 900 content)\<rparr>"
    using serveFile_900_open [OF assms(7,8,9)] .
  show ?thesis
    using assms(9) by (simp only: gate whole first last) simp
qed

text \<open>The owner streams the stored example video.\<close>

theorem C3_range_correctness_witness:
  "''owner-token'' \<noteq> []
   \<and> jwt_verify ex_env ''owner-token'' = Some ex_owner
   \<and> findById (videos (ex_world ex_video)) 7 = Some ex_video
   \<and> authorizationCheck ex_owner ex_video
   \<and> status ex_video = COMPLETED
   \<and> sensitivityStatus ex_video = SAFE
   \<and> filepath ex_video \<noteq> []
   \<and> files (ex_world ex_video) (filepath ex_video) = Some ex_content
   \<and> length ex_content = 1000
   \<and> resp_status (streamVideo ex_env (ex_world ex_video)
         \<lparr>sr_id = Some 7, sr_token = Some ''owner-token'', sr_range = None\<rparr>) = 200
   \<and> resp_status (streamVideo ex_env (ex_world ex_video)
         \<lparr>sr_id = Some 7, sr_token = Some ''owner-token'', sr_range = Some ''bytes=0-99''\<rparr>) = 206
   \<and> resp_body (streamVideo ex_env (ex_world ex_video)
         \<lparr>sr_id = Some 7, sr_token = Some ''owner-token'', sr_range = Some ''bytes=900-''\<rparr>)
       = FileBytes (drop 900 ex_content)"
proof -
  have h1: "''owner-token'' \<noteq> []" by simp
  have h2: "jwt_verify ex_env ''owner-token'' = Some ex_owner" by (rule ex_tokens)
  have h3: "findById (videos (ex_world ex_video)) 7 = Some ex_video"
    by (simp add: ex_find ex_video_fields)
  have h4: "authorizationCheck ex_owner ex_video"
    by (simp add: authorizationCheck_def ex_video_fields ex_users)
  have h5: "status ex_video = COMPLETED" by (rule ex_video_fields)
  have h6: "sensitivityStatus ex_video = FLAGGED \<longrightarrow> d_role ex_owner = ''admin''"
    by (simp add: ex_video_fields)
  have h7: "filepath ex_video \<noteq> []" by (simp add: ex_video_fields ex_file)
  have h8: "files (ex_world ex_video) (filepath ex_video) = Some ex_content"
    by (simp add: ex_video_fields ex_file)
  have h9: "length ex_content = 1000" by (rule ex_file)
  show ?thesis
    using C3_range_correctness [OF h1 h2 h3 h4 h5 h6 h7 h8 h9] h1 h2 h3 h4 h5 h7 h8 h9
    by (simp add: ex_video_fields)
qed

text \<open>
  Claim C4, amended. For an authorized request on a completed record whose Range header
  lists several ranges, \<^verbatim>\<open>bytes=a-b,...\<close> with \<open>a \<le> b\<close>, the server does not fall
  back to the whole file: it answers 206 with Content-Range \<^verbatim>\<open>bytes a-b/size\<close> and the
  bytes of the first range only, cut at the end of the file.
\<close>

theorem C4_multiple_ranges_first_range_served:
  assumes "tok \<noteq> []"
    and "jwt_verify env tok = Some decoded"
    and "findById (videos w) i = Some video"
    and "authorizationCheck decoded video"
    and "status video = COMPLETED"
    and "sensitivityStatus video = FLAGGED \<longrightarrow> d_role decoded = ''admin''"
    and "filepath video \<noteq> []"
    and "files w (filepath video) = Some content"
    and "a \<le> b"
    and "b < 2 ^ 53"
  shows "streamVideo env w
           \<lparr>sr_id = Some i, sr_token = Some tok,
            sr_range = Some (''bytes='' @ show_nat a @ ''-'' @ show_nat b @ '','' @ others)\<rparr> =
         \<lparr>resp_status = 206,
          resp_headers =
            [(''Content-Range'',
                ''bytes '' @ show_nat a @ ''-'' @ show_nat b @ ''/'' @ show_nat (length content)),
             (''Accept-Ranges'', ''bytes''),
             (''Content-Length'', show_nat (b - a + 1)),
             (''Content-Type'', ''video/mp4'')],
          resp_body = FileBytes (take (b - a + 1) (drop a content))\<rparr>"
proof -
  have tail: "'','' @ others = [] \<or>
      (\<not> is_digit (hd ('','' @ others)) \<and> hd ('','' @ others) \<noteq> CHR ''-'')"
    by (simp add: is_digit_def)
  show ?thesis
    using streamVideo_passes_gate [OF assms(1-6)]
      serveFile_first_range [OF assms(7,8,9) tail]
    by simp
qed

text \<open>The owner asks for two ranges of the stored example video.\<close>

theorem C4_multiple_ranges_first_range_served_witness:
  "''owner-token'' \<noteq> []
   \<and> jwt_verify ex_env ''owner-token'' = Some ex_owner
   \<and> findById (videos (ex_world ex_video)) 7 = Some ex_video
   \<and> authorizationCheck ex_owner ex_video
   \<and> status ex_video = COMPLETED
   \<and> sensitivityStatus ex_video = SAFE
   \<and> filepath ex_video \<noteq> []
   \<and> files (ex_world ex_video) (filepath ex_video) = Some ex_content
   \<and> (0::nat) \<le> 99 \<and> (99::nat) < 2 ^ 53
   \<and> streamVideo ex_env (ex_world ex_video)
         \<lparr>sr_id = Some 7, sr_token = Some ''owner-token'',
          sr_range = Some ''bytes=0-99,200-299''\<rparr> =
       \<lparr>resp_status = 206,
        resp_headers = [(''Content-Range'', ''bytes 0-99/1000''),
                        (''Accept-Ranges'', ''bytes''),
                        (''Content-Length'', ''100''),
                        (''Content-Type'', ''video/mp4'')],
        resp_body = FileBytes (take 100 ex_content)\<rparr>"
proof -
  have h1: "''owner-token'' \<noteq> []" by simp
  have h2: "jwt_verify ex_env ''owner-token'' = Some ex_owner" by (rule ex_tokens)
  have h3: "findById (videos (ex_world ex_video)) 7 = Some ex_video"
    by (simp add: ex_find ex_video_fields)
  have h4: "authorizationCheck ex_owner ex_video"
    by (simp add: authorizationCheck_def ex_video_fields ex_users)
  have h5: "status ex_video = COMPLETED" by (rule ex_video_fields)
  have h6: "sensitivityStatus ex_video = FLAGGED \<longrightarrow> d_role ex_owner = ''admin''"
    by (simp add: ex_video_fields)
  have h7: "filepath ex_video \<noteq> []" by (simp add: ex_video_fields ex_file)
  have h8: "files (ex_world ex_video) (filepath ex_video) = Some ex_content"
    by (simp add: ex_video_fields ex_file)
  have h9: "(0::nat) \<le> 99" by simp
  have h10: "(99::nat) < 2 ^ 53" by simp
  show ?thesis
    using C4_multiple_ranges_first_range_served [OF h1 h2 h3 h4 h5 h6 h7 h8 h9 h10, of "''200-299''"]
      h1 h2 h3 h4 h5 h7 h8
    by (simp add: show_nat_values ex_video_fields ex_file)
qed

text \<open>
  The claim as stated fails: neither header is answered like a request without Range
  header, which gets 200 and the whole file.
\<close>

theorem C4_range_header_not_ignored:
  "resp_status (streamVideo ex_env (ex_world ex_video)
      \<lparr>sr_id = Some 7, sr_token = Some ''owner-token'', sr_range = None\<rparr>) = 200
   \<and> resp_status (streamVideo ex_env (ex_world ex_video)
      \<lparr>sr_id = Some 7, sr_token = Some ''owner-token'',
       sr_range = Some ''bytes=0-99,200-299''\<rparr>) = 206
   \<and> streamVideo ex_env (ex_world ex_video)
      \<lparr>sr_id = Some 7, sr_token = Some ''owner-token'', sr_range = Some ''bytes=abc-''\<rparr> =
      \<lparr>resp_status = 206,
       resp_headers = [(''Content-Range'', ''bytes NaN-999/1000''),
                       (''Accept-Ranges'', ''bytes''),
                       (''Content-Length'', ''NaN''),
                       (''Content-Type'', ''video/mp4'')],
       resp_body = NoBody\<rparr>"
proof -
  have gate: "streamVideo ex_env (ex_world ex_video)
                \<lparr>sr_id = Some 7, sr_token = Some ''owner-token'', sr_range = r\<rparr>
              = serveFile (ex_world ex_video) ex_video r" for r
    using streamVideo_passes_gate
            [of "''owner-token''" ex_env ex_owner "ex_world ex_video" 7 ex_video r]
    by (simp add: ex_tokens ex_find ex_video_fields ex_users authorizationCheck_def)
  have f: "filepath ex_video \<noteq> []"
    "files (ex_world ex_video) (filepath ex_video) = Some ex_content"
    by (simp_all add: ex_video_fields ex_file)
  have multi: "serveFile (ex_world ex_video) ex_video
                 (Some (''bytes='' @ show_nat 0 @ ''-'' @ show_nat 99 @ '',200-299'')) =
               \<lparr>resp_status = 206,
                resp_headers =
                  [(''Content-Range'',
                      ''bytes '' @ show_nat 0 @ ''-'' @ show_nat 99 @ ''/'' @ show_nat (length ex_content)),
                   (''Accept-Ranges'', ''bytes''),
                   (''Content-Length'', show_nat (99 - 0 + 1)),
                   (''Content-Type'', ''video/mp4'')],
                resp_body = FileBytes (take (99 - 0 + 1) (drop 0 ex_content))\<rparr>"
    by (rule serveFile_first_range [OF f]) (simp_all add: is_digit_def)
  show ?thesis
    using serveFile_whole [OF f] serveFile_abc [OF f ex_file(2)] multi
    by (simp add: gate show_nat_values)
qed


section \<open>Processing orchestrator: failure policy and degradation\<close>



text \<open>
  Claim C6, amended. For a record entering the orchestrator while the prober is
  available, the classifier runs after the availability check and before the probe,
  whatever the probe yields, so the record's verdict is set to safe or flagged even
  when probing fails. When the prober is unavailable the orchestrator returns before
  the classifier is called and the verdict is left as it was.
\<close>

theorem C6_classification_before_probing:
  assumes "findById (videos w) i = Some video"
  shows "(ffmpeg_available env \<longrightarrow>
            (let w' = processVideoInBackground env i p w;
                 verdict = analyzeSensitivity (rand_first env) (title video) (description video)
             in map_option sensitivityStatus (findById (videos w') i) = Some verdict
                \<and> verdict \<noteq> PENDING
                \<and> take 3 (drop (length (calls w)) (calls w')) =
                     [CallCheckFFmpeg, CallAnalyzeSensitivity, CallFFprobe p]))
         \<and> (\<not> ffmpeg_available env \<longrightarrow>
            (let w' = processVideoInBackground env i p w
             in map_option sensitivityStatus (findById (videos w') i) = Some (sensitivityStatus video)
                \<and> calls w' = calls w @ [CallCheckFFmpeg]))"
proof (intro conjI impI)
  assume av: "ffmpeg_available env"
  show "let w' = processVideoInBackground env i p w;
            verdict = analyzeSensitivity (rand_first env) (title video) (description video)
        in map_option sensitivityStatus (findById (videos w') i) = Some verdict
           \<and> verdict \<noteq> PENDING
           \<and> take 3 (drop (length (calls w)) (calls w')) =
                [CallCheckFFmpeg, CallAnalyzeSensitivity, CallFFprobe p]"
  proof (cases "ffprobe env p")
    case (Inl m)
    then show ?thesis
      using assms av
      by (simp add: orchestrator_probe_error processingFailed_def Let_def world_simps
            findById_update_first analyzeSensitivity_settled)
  next
    case (Inr md)
    show ?thesis
    proof (cases "md_duration md")
      case None
      show ?thesis
        using assms
        by (simp add: orchestrator_duration_not_a_number [OF assms av Inr None]
              processingFailed_def Let_def world_simps findById_update_first
              analyzeSensitivity_settled)
    next
      case (Some d)
      show ?thesis
        using assms
        by (simp add: orchestrator_probed [OF assms av Inr Some] Let_def world_simps
              findById_update_first analyzeSensitivity_settled)
    qed
  qed
next
  assume "\<not> ffmpeg_available env"
  then show "let w' = processVideoInBackground env i p w
        in map_option sensitivityStatus (findById (videos w') i) = Some (sensitivityStatus video)
           \<and> calls w' = calls w @ [CallCheckFFmpeg]"
    using assms
    by (simp add: orchestrator_degraded Let_def world_simps findById_update_first)
qed

text \<open>The prober available and unavailable, on the uploaded example.\<close>

theorem C6_classification_before_probing_witness:
  "findById (videos (ex_world ex_uploaded)) 7 = Some ex_uploaded
   \<and> ffmpeg_available ex_env
   \<and> map_option sensitivityStatus
        (findById (videos (processVideoInBackground ex_env 7 ex_path (ex_world ex_uploaded))) 7)
       = Some SAFE
   \<and> take 3 (calls (processVideoInBackground ex_env 7 ex_path (ex_world ex_uploaded)))
       = [CallCheckFFmpeg, CallAnalyzeSensitivity, CallFFprobe ex_path]
   \<and> \<not> ffmpeg_available ex_env_no_ffmpeg
   \<and> calls (processVideoInBackground ex_env_no_ffmpeg 7 ex_path (ex_world ex_uploaded))
       = [CallCheckFFmpeg]"
proof -
  have h1: "findById (videos (ex_world ex_uploaded)) 7 = Some ex_uploaded"
    by (simp add: ex_find ex_uploaded_fields)
  have verdict: "analyzeSensitivity (rand_first ex_env) ''demo'' [] = SAFE"
    by (simp add: analyzeSensitivity_def ex_env_def UNSAFE_KEYWORDS_def toLowerCase_def
          toLowerChar_def)
  show ?thesis
    using C6_classification_before_probing [OF h1, of ex_env ex_path, THEN conjunct1, THEN mp,
            OF ex_env_runs(9)]
      C6_classification_before_probing [OF h1, of ex_env_no_ffmpeg ex_path, THEN conjunct2,
            THEN mp, OF ex_env_runs(8)]
      h1
    by (simp add: Let_def ex_env_runs ex_world_fields ex_uploaded_fields verdict)
qed

text \<open>
  The claim as stated fails: with the prober unavailable the orchestrator completes the
  record and its verdict is still pending.
\<close>

theorem C6_prober_unavailable_verdict_pending:
  "\<not> ffmpeg_available ex_env_no_ffmpeg
   \<and> map_option (\<lambda>v. (status v, sensitivityStatus v))
        (findById (videos (processVideoInBackground ex_env_no_ffmpeg 7 ex_path
                             (ex_world ex_uploaded))) 7)
       = Some (COMPLETED, PENDING)"
proof -
  have h1: "findById (videos (ex_world ex_uploaded)) 7 = Some ex_uploaded"
    by (simp add: ex_find ex_uploaded_fields)
  show ?thesis
    using orchestrator_degraded [OF h1 ex_env_runs(8), of ex_path]
    by (simp add: ex_env_runs world_simps findById_update_first h1 ex_uploaded_fields)
qed

text \<open>
  Claim C7. When an upload has been accepted and the orchestrator then runs on the new
  record with the prober unavailable, the only collaborator call is the availability
  check (no probe, no classification, no thumbnail) and the record ends completed with
  progress 100 while duration, resolution, bitrate, codec and thumbnail path are unset.
\<close>

theorem C7_prober_unavailable_completes_degraded:
  assumes "uploadVideo env w req = (Responded resp, w1, Some (videoId, filePath))"
    and "\<not> ffmpeg_available env"
  shows "let w2 = processVideoInBackground env videoId filePath w1
         in map_option (\<lambda>v. (status v, processingProgress v)) (findById (videos w2) videoId)
              = Some (COMPLETED, 100)
            \<and> map_option (\<lambda>v. (duration v, resolution_width v, resolution_height v,
                                bitrate v, codec v, thumbnailPath v))
                 (findById (videos w2) videoId)
              = Some (None, None, None, None, None, None)
            \<and> calls w2 = calls w1 @ [CallCheckFFmpeg]"
proof -
  from uploadVideo_accepted [OF assms(1)] obtain v where v:
    "findById (videos w1) videoId = Some v"
    "duration v = None" "resolution_width v = None" "resolution_height v = None"
    "bitrate v = None" "codec v = None" "thumbnailPath v = None"
    by blast
  show ?thesis
    using v
    by (simp add: orchestrator_degraded [OF v(1) assms(2)] Let_def world_simps
          findById_update_first)
qed

text \<open>The example upload, processed on a host without the external tool.\<close>

theorem C7_prober_unavailable_completes_degraded_witness:
  "uploadVideo ex_env_no_ffmpeg ex_empty_world ex_upload =
     (Responded
        \<lparr>resp_status = 201, resp_headers = [],
         resp_body =
           JsonUpload True ''Video uploaded successfully. Processing started.''
             \<lparr>ack_id = 1, ack_title = ''demo'', ack_description = [],
              ack_filename = ''clip.mp4'', ack_originalFilename = ''holiday.mp4'',
              ack_filesize = 1000, ack_mimeType = ''video/mp4'', ack_status = PROCESSING,
              ack_sensitivityStatus = PENDING, ack_processingProgress = 10\<rparr>\<rparr>,
      ex_world (ex_uploaded\<lparr>vid := 1\<rparr>),
      Some (1, ex_path))
   \<and> \<not> ffmpeg_available ex_env_no_ffmpeg
   \<and> map_option (\<lambda>v. (status v, processingProgress v))
        (findById (videos (processVideoInBackground ex_env_no_ffmpeg 1 ex_path
                             (ex_world (ex_uploaded\<lparr>vid := 1\<rparr>)))) 1)
       = Some (COMPLETED, 100)
   \<and> map_option (\<lambda>v. (duration v, resolution_width v, resolution_height v,
                       bitrate v, codec v, thumbnailPath v))
        (findById (videos (processVideoInBackground ex_env_no_ffmpeg 1 ex_path
                             (ex_world (ex_uploaded\<lparr>vid := 1\<rparr>)))) 1)
       = Some (None, None, None, None, None, None)
   \<and> calls (processVideoInBackground ex_env_no_ffmpeg 1 ex_path
               (ex_world (ex_uploaded\<lparr>vid := 1\<rparr>)))
       = [CallCheckFFmpeg]"
  using C7_prober_unavailable_completes_degraded [OF ex_upload_runs ex_env_runs(8)]
    ex_upload_runs [of ex_env_no_ffmpeg]
  by (simp add: Let_def ex_env_runs ex_world_fields)


section \<open>Acknowledgment of an upload\<close>

text \<open>
  Claim C8 asks for 202 Accepted with state \<^verbatim>\<open>uploading\<close>. The accepted example upload
  (title \<^verbatim>\<open>demo\<close>, a 1000-byte \<^verbatim>\<open>video/mp4\<close> file) is answered by the controller with 201
  Created, and the body reports the state \<^verbatim>\<open>processing\<close> with progress 10: the record
  is created in state \<^verbatim>\<open>uploading\<close> and set to \<^verbatim>\<open>processing\<close> before the response is
  built. The orchestrator is started and not awaited.
\<close>

theorem C8_upload_answered_201_processing:
  "uploadAccepted None (the (ur_file ex_upload))
   \<and> uploadVideo ex_env ex_empty_world ex_upload =
     (Responded
        \<lparr>resp_status = 201, resp_headers = [],
         resp_body =
           JsonUpload True ''Video uploaded successfully. Processing started.''
             \<lparr>ack_id = 1, ack_title = ''demo'', ack_description = [],
              ack_filename = ''clip.mp4'', ack_originalFilename = ''holiday.mp4'',
              ack_filesize = 1000, ack_mimeType = ''video/mp4'', ack_status = PROCESSING,
              ack_sensitivityStatus = PENDING, ack_processingProgress = 10\<rparr>\<rparr>,
      ex_world (ex_uploaded\<lparr>vid := 1\<rparr>),
      Some (1, ex_path))"
  using ex_upload_accepted ex_upload_runs [of ex_env] by simp

text \<open>Read off the response: neither 202 nor the state \<^verbatim>\<open>uploading\<close>.\<close>

theorem C8_upload_answered_201_processing_witness:
  "(case fst (uploadVideo ex_env ex_empty_world ex_upload) of
      Responded r \<Rightarrow>
        resp_status r = 201 \<and> resp_status r \<noteq> 202
        \<and> (case resp_body r of
              JsonUpload ok msg ack \<Rightarrow> ack_status ack = PROCESSING \<and> ack_status ack \<noteq> UPLOADING
            | _ \<Rightarrow> False)
    | NextError e \<Rightarrow> False)"
  using C8_upload_answered_201_processing by simp


section \<open>Unsubscribing from the status channel\<close>

text \<open>
  Claim C9 says that a stale unsubscribe never removes a replacement listener. On a
  connected socket: callback 1 subscribes and unsubscribes, callback 2 subscribes as its
  replacement and receives the events; then the first unsubscribe function is called a
  second time, and callback 2 receives nothing any more. The second call takes the
  handler registered under the event name, whoever registered it.
\<close>

theorem C9_stale_unsubscribe_removes_replacement:
  "delivered_to videoStatusUpdate
     (subscribeToVideoUpdates 2
        (unsubscribe 1
           (subscribeToVideoUpdates 1
              (on_connect (connect (Some ''jwt'') newSocketService))))) = [2]
   \<and> delivered_to videoStatusUpdate
     (unsubscribe 1
        (subscribeToVideoUpdates 2
           (unsubscribe 1
              (subscribeToVideoUpdates 1
                 (on_connect (connect (Some ''jwt'') newSocketService)))))) = []"
  by (simp add: delivered_to_def unsubscribe_def subscribeToVideoUpdates_def addListener_def
        on_connect_def connect_def newSocketService_def processPendingSubscriptions_def
        videoStatusUpdate_def Let_def)


section \<open>Soft deletion\<close>

text \<open>
  Claim C10. A record with the soft-delete flag set that is completed and
  access-permitted is still streamed: the request reaches the file part and, without a
  Range header, gets 200 and the bytes of the file. The metadata read path answers the
  same record with 404, not found. Ids are unique in the collection.
\<close>

theorem C10_streaming_ignores_soft_delete:
  assumes "isDeleted video"
    and "distinct (map vid (videos w))"
    and "tok \<noteq> []"
    and "jwt_verify env tok = Some decoded"
    and "findById (videos w) i = Some video"
    and "authorizationCheck decoded video"
    and "status video = COMPLETED"
    and "sensitivityStatus video = FLAGGED \<longrightarrow> d_role decoded = ''admin''"
    and "filepath video \<noteq> []"
    and "files w (filepath video) = Some content"
  shows "streamVideo env w \<lparr>sr_id = Some i, sr_token = Some tok, sr_range = r\<rparr>
           = serveFile w video r
         \<and> streamVideo env w \<lparr>sr_id = Some i, sr_token = Some tok, sr_range = None\<rparr> =
           \<lparr>resp_status = 200,
            resp_headers = [(''Content-Length'', show_nat (length content)),
                            (''Content-Type'', ''video/mp4'')],
            resp_body = FileBytes content\<rparr>
         \<and> getVideoById env w user (Some i) =
           (Responded (errorResponse ''Video not found'' HttpStatus_NOT_FOUND), w)"
proof -
  have "findOne_notDeleted (videos w) i = None"
    using findOne_deleted [OF assms(2,5,1)] .
  then have "getVideoById env w user (Some i) =
               (Responded (errorResponse ''Video not found'' HttpStatus_NOT_FOUND), w)"
    by (simp add: getVideoById_def)
  then show ?thesis
    using streamVideo_passes_gate [OF assms(3-8)] serveFile_whole [OF assms(9,10)]
    by simp
qed

text \<open>The owner's video after a soft delete: streamed in full, not found as metadata.\<close>

theorem C10_streaming_ignores_soft_delete_witness:
  "isDeleted (ex_video\<lparr>isDeleted := True\<rparr>)
   \<and> distinct (map vid (videos (ex_world (ex_video\<lparr>isDeleted := True\<rparr>))))
   \<and> jwt_verify ex_env ''owner-token'' = Some ex_owner
   \<and> findById (videos (ex_world (ex_video\<lparr>isDeleted := True\<rparr>))) 7
       = Some (ex_video\<lparr>isDeleted := True\<rparr>)
   \<and> authorizationCheck ex_owner (ex_video\<lparr>isDeleted := True\<rparr>)
   \<and> status (ex_video\<lparr>isDeleted := True\<rparr>) = COMPLETED
   \<and> sensitivityStatus (ex_video\<lparr>isDeleted := True\<rparr>) = SAFE
   \<and> files (ex_world (ex_video\<lparr>isDeleted := True\<rparr>)) (filepath (ex_video\<lparr>isDeleted := True\<rparr>))
       = Some ex_content
   \<and> streamVideo ex_env (ex_world (ex_video\<lparr>isDeleted := True\<rparr>))
         \<lparr>sr_id = Some 7, sr_token = Some ''owner-token'', sr_range = None\<rparr> =
       \<lparr>resp_status = 200,
        resp_headers = [(''Content-Length'', ''1000''), (''Content-Type'', ''video/mp4'')],
        resp_body = FileBytes ex_content\<rparr>
   \<and> fst (getVideoById ex_env (ex_world (ex_video\<lparr>isDeleted := True\<rparr>)) ex_owner (Some 7)) =
       Responded \<lparr>resp_status = 404, resp_headers = [],
                  resp_body = JsonMessage False ''Video not found''\<rparr>"
proof -
  let ?d = "ex_video\<lparr>isDeleted := True\<rparr>"
  have h1: "isDeleted ?d" by simp
  have h2: "distinct (map vid (videos (ex_world ?d)))" by (simp add: ex_world_def)
  have h3: "''owner-token'' \<noteq> []" by simp
  have h4: "jwt_verify ex_env ''owner-token'' = Some ex_owner" by (rule ex_tokens)
  have h5: "findById (videos (ex_world ?d)) 7 = Some ?d" by (simp add: ex_find ex_video_fields)
  have h6: "authorizationCheck ex_owner ?d"
    by (simp add: authorizationCheck_def ex_video_fields ex_users)
  have h7: "status ?d = COMPLETED" by (simp add: ex_video_fields)
  have h8: "sensitivityStatus ?d = FLAGGED \<longrightarrow> d_role ex_owner = ''admin''"
    by (simp add: ex_video_fields)
  have h9: "filepath ?d \<noteq> []" by (simp add: ex_video_fields ex_file)
  have h10: "files (ex_world ?d) (filepath ?d) = Some ex_content"
    by (simp add: ex_video_fields ex_file)
  show ?thesis
    using C10_streaming_ignores_soft_delete
            [OF h1 h2 h3 h4 h5 h6 h7 h8 h9 h10, of None ex_owner, THEN conjunct2]
      h2 h4 h5 h6 h10
    by (simp add: ex_video_fields ex_file show_nat_values errorResponse_def json_response_def
          HttpStatus_NOT_FOUND_def)
qed

end
